theory Spec2Isabelle
  imports Main "HOL-Library.AList"
begin

section \<open>Field model\<close>

text \<open>
  The canonical (resolver-keyed) variant of nanosync is embedded here. A field is a
  key with a declared type; the type is never inspected by the code.
\<close>

datatype FieldType =
  T_string | T_number | T_boolean | T_date | T_time | T_datetime
  | T_json | T_array | T_object | T_custom

record Field =
  key :: string
  type :: FieldType

record MappedField =
  sourceField :: Field
  targetField :: Field

text \<open>
  \<^verbatim>\<open>fields.find((f) => mutationFieldName === f.targetField.key)?.sourceField.key\<close>:
  the first entry whose target key is the given name, \<open>None\<close> standing for
  \<^verbatim>\<open>undefined\<close>.
\<close>

definition findQueryFieldName :: "MappedField list \<Rightarrow> string \<Rightarrow> string option" where
  "findQueryFieldName fs mutationFieldName =
     map_option (\<lambda>f. key (sourceField f))
       (find (\<lambda>f. mutationFieldName = key (targetField f)) fs)"

definition findMutationFieldName :: "MappedField list \<Rightarrow> string \<Rightarrow> string option" where
  "findMutationFieldName fs queryFieldName =
     map_option (\<lambda>f. key (targetField f))
       (find (\<lambda>f. queryFieldName = key (sourceField f)) fs)"

text \<open>
  The composition \<^verbatim>\<open>findMutationFieldName(fields, findQueryFieldName(fields, t))\<close>.
  When the inner lookup is \<^verbatim>\<open>undefined\<close> no entry compares equal to it and the
  outer lookup is \<^verbatim>\<open>undefined\<close> as well.
\<close>

definition inverseLookup :: "MappedField list \<Rightarrow> string \<Rightarrow> string option" where
  "inverseLookup fs t =
     (case findQueryFieldName fs t of
        None \<Rightarrow> None
      | Some s \<Rightarrow> findMutationFieldName fs s)"

abbreviation sourceKeys :: "MappedField list \<Rightarrow> string list" where
  "sourceKeys fs \<equiv> map (\<lambda>f. key (sourceField f)) fs"

abbreviation targetKeys :: "MappedField list \<Rightarrow> string list" where
  "targetKeys fs \<equiv> map (\<lambda>f. key (targetField f)) fs"

definition mapped :: "string \<Rightarrow> string \<Rightarrow> MappedField" where
  "mapped s t =
     \<lparr>sourceField = \<lparr>key = s, type = T_string\<rparr>,
      targetField = \<lparr>key = t, type = T_string\<rparr>\<rparr>"

section \<open>Values, errors and integrations\<close>

text \<open>
  A value as the code passes it around: a string, a boolean, \<^verbatim>\<open>null\<close>, or
  JavaScript's \<^verbatim>\<open>undefined\<close> (what reading a missing property gives). Numbers
  (floating point) and structured records are left out of the model.
\<close>

datatype FieldValue = VString string | VBoolean bool | VNull | VUndefined

text \<open>
  What a JavaScript template literal or \<^verbatim>\<open>String(value)\<close> makes of a value: a string
  is taken as it is.
\<close>

fun String' :: "FieldValue \<Rightarrow> string" where
  "String' (VString s) = s"
| "String' (VBoolean b) = (if b then ''true'' else ''false'')"
| "String' VNull = ''null''"
| "String' VUndefined = ''undefined''"

text \<open>
  Errors are values. \<open>Error\<close> carries the message of a \<^verbatim>\<open>new Error(message)\<close> of
  the code, \<open>TypeError\<close> is what JavaScript raises when a property of
  \<^verbatim>\<open>undefined\<close> is read or \<^verbatim>\<open>undefined\<close> is called, \<open>GraphQLError\<close> is an error
  raised or reported by the graphql library.
\<close>

datatype error = Error string | TypeError | GraphQLError

text \<open>
  A resolver returns a promise: \<open>Inr\<close> is the value it fulfils with, \<open>Inl\<close> the
  reason it rejects with. An integration may lack either resolver.
\<close>

record Integration =
  name :: string
  description :: string
  resolveQuery :: "(string \<Rightarrow> error + FieldValue) option"
  resolveMutation :: "(string \<Rightarrow> FieldValue \<Rightarrow> error + FieldValue) option"

section \<open>JavaScript objects and arrays\<close>

text \<open>
  An object is the list of its own properties in the order of \<^verbatim>\<open>Object.keys\<close>:
  insertion order, for keys that are not integer indices. Assigning an existing key
  replaces the value and keeps the position, assigning a new key appends it; this is
  \<^const>\<open>AList.update\<close>. The spread \<^verbatim>\<open>{ ...acc, ...f }\<close> copies \<open>acc\<close> and assigns the
  properties of \<open>f\<close> in order.
\<close>

type_synonym 'v js_object = "(string \<times> 'v) list"

definition spread :: "'v js_object \<Rightarrow> 'v js_object \<Rightarrow> 'v js_object" where
  "spread acc f = foldl (\<lambda>a kv. AList.update (fst kv) (snd kv) a) acc f"

definition Object_keys :: "'v js_object \<Rightarrow> string list" where
  "Object_keys obj = map fst obj"

text \<open>\<^verbatim>\<open>array.join(sep)\<close> on an array of strings.\<close>

fun join :: "string \<Rightarrow> string list \<Rightarrow> string" where
  "join sep [] = []"
| "join sep [x] = x"
| "join sep (x # y # ys) = x @ sep @ join sep (y # ys)"

text \<open>
  \<^verbatim>\<open>array.map(callback)\<close> with a callback that may throw: the first throw ends the
  loop and is the outcome.
\<close>

fun mapE :: "('a \<Rightarrow> error + 'b) \<Rightarrow> 'a list \<Rightarrow> error + 'b list" where
  "mapE g [] = Inr []"
| "mapE g (x # xs) =
     (case g x of
        Inl e \<Rightarrow> Inl e
      | Inr y \<Rightarrow> (case mapE g xs of Inl e \<Rightarrow> Inl e | Inr ys \<Rightarrow> Inr (y # ys)))"

text \<open>
  A record read by key, \<^verbatim>\<open>record[key]\<close>: an own property is found first, then a
  member inherited along the prototype chain (for an object literal the members of
  \<^verbatim>\<open>Object.prototype\<close>, such as \<^verbatim>\<open>toString\<close>); with neither, the read gives
  \<^verbatim>\<open>undefined\<close>. Of an inherited member only the text that a template literal makes of
  it is kept. \<open>propertyText\<close> is \<^verbatim>\<open>`${record[key]}`\<close>.
\<close>

record js_record =
  ownProperties :: "string \<Rightarrow> FieldValue option"
  inheritedText :: "string \<Rightarrow> string option"

definition propertyText :: "js_record \<Rightarrow> string \<Rightarrow> string" where
  "propertyText r k =
     (case ownProperties r k of
        Some v \<Rightarrow> String' v
      | None \<Rightarrow> (case inheritedText r k of Some t \<Rightarrow> t | None \<Rightarrow> String' VUndefined))"

section \<open>The schema\<close>

text \<open>
  The part of the graphql library (graphql-js 16) that the schema builder uses. A slot
  is a field configuration: its type (always \<^verbatim>\<open>GraphQLString\<close>), the names of its
  arguments, and its resolve function, which receives the argument values by name.
\<close>

datatype GraphQLScalarType = GraphQLString

record GraphQLFieldConfig =
  type' :: GraphQLScalarType
  args :: "string list"
  resolve :: "(string \<Rightarrow> FieldValue option) \<Rightarrow> error + FieldValue"

record GraphQLObjectType =
  typeName :: string
  getFields :: "GraphQLFieldConfig js_object"

record GraphQLSchema =
  getQueryType :: "GraphQLObjectType option"
  getMutationType :: "GraphQLObjectType option"

text \<open>
  The library's \<^verbatim>\<open>assertName\<close>: a name is a letter or an underscore followed by
  letters, digits and underscores.
\<close>

definition isNameStart :: "char \<Rightarrow> bool" where
  "isNameStart c \<longleftrightarrow>
     c \<in> set ''abcdefghijklmnopqrstuvwxyzABCDEFGHIJKLMNOPQRSTUVWXYZ_''"

definition isDigit :: "char \<Rightarrow> bool" where
  "isDigit c \<longleftrightarrow> c \<in> set ''0123456789''"

definition isNameContinue :: "char \<Rightarrow> bool" where
  "isNameContinue c \<longleftrightarrow> isNameStart c \<or> isDigit c"

fun assertName :: "string \<Rightarrow> bool" where
  "assertName [] = False"
| "assertName (c # cs) = (isNameStart c \<and> list_all isNameContinue cs)"

text \<open>
  \<^verbatim>\<open>new GraphQLSchema({ query, mutation })\<close>. The constructor reads the field map of
  both root types, and reading a field map raises a \<open>GraphQLError\<close> for a slot name
  that is not a name. So a key that is an integer index, which JavaScript would list
  before the others, never is a slot of a schema.
\<close>

definition validFieldNames :: "GraphQLObjectType option \<Rightarrow> bool" where
  "validFieldNames t =
     (case t of
        None \<Rightarrow> True
      | Some ot \<Rightarrow> list_all assertName (Object_keys (getFields ot)))"

definition new_GraphQLSchema ::
  "GraphQLObjectType option \<Rightarrow> GraphQLObjectType option \<Rightarrow> error + GraphQLSchema" where
  "new_GraphQLSchema query mutation =
     (if validFieldNames query \<and> validFieldNames mutation
      then Inr \<lparr>getQueryType = query, getMutationType = mutation\<rparr>
      else Inl GraphQLError)"

text \<open>
  \<^verbatim>\<open>createQuerySchema\<close>: one single-property object per mapped field, merged by
  \<^verbatim>\<open>reduce\<close> with a spread. The resolve function of a slot calls the integration's
  resolver with the source key; calling a missing resolver is a \<open>TypeError\<close>.
\<close>

definition queryFieldConfig ::
  "(string \<Rightarrow> error + FieldValue) option \<Rightarrow> MappedField \<Rightarrow> GraphQLFieldConfig" where
  "queryFieldConfig resolver f =
     \<lparr>type' = GraphQLString,
      args = [],
      resolve = (\<lambda>a. case resolver of
                         None \<Rightarrow> Inl TypeError
                       | Some r \<Rightarrow> r (key (sourceField f)))\<rparr>"

definition createQuerySchema ::
  "MappedField list \<Rightarrow> (string \<Rightarrow> error + FieldValue) option \<Rightarrow> GraphQLObjectType" where
  "createQuerySchema fs resolver =
     (let queryFields = map (\<lambda>f. [(key (sourceField f), queryFieldConfig resolver f)]) fs
      in \<lparr>typeName = ''RootQueryType'', getFields = foldl spread [] queryFields\<rparr>)"

text \<open>
  \<^verbatim>\<open>createMutationSchema\<close>: the same with the target key; the slot takes the argument
  \<^verbatim>\<open>resolvedQuery\<close> and passes \<^verbatim>\<open>args.resolvedQuery\<close> to the resolver.
\<close>

definition mutationFieldConfig ::
  "(string \<Rightarrow> FieldValue \<Rightarrow> error + FieldValue) option \<Rightarrow> MappedField \<Rightarrow> GraphQLFieldConfig"
  where
  "mutationFieldConfig resolver f =
     \<lparr>type' = GraphQLString,
      args = [''resolvedQuery''],
      resolve = (\<lambda>a. case resolver of
                         None \<Rightarrow> Inl TypeError
                       | Some r \<Rightarrow>
                           r (key (targetField f))
                             (case a ''resolvedQuery'' of None \<Rightarrow> VUndefined | Some v \<Rightarrow> v))\<rparr>"

definition createMutationSchema ::
  "MappedField list \<Rightarrow> (string \<Rightarrow> FieldValue \<Rightarrow> error + FieldValue) option \<Rightarrow> GraphQLObjectType"
  where
  "createMutationSchema fs resolver =
     (let mutateFields = map (\<lambda>f. [(key (targetField f), mutationFieldConfig resolver f)]) fs
      in \<lparr>typeName = ''RootMutationType'', getFields = foldl spread [] mutateFields\<rparr>)"

definition createSchema ::
  "MappedField list \<Rightarrow> Integration \<Rightarrow> Integration \<Rightarrow> error + GraphQLSchema" where
  "createSchema fs sourceIntegration targetIntegration =
     new_GraphQLSchema
       (Some (createQuerySchema fs (resolveQuery sourceIntegration)))
       (Some (createMutationSchema fs (resolveMutation targetIntegration)))"

section \<open>Text generation\<close>

definition dquote :: char where
  "dquote = CHR 0x22"

definition createQueryString :: "GraphQLSchema \<Rightarrow> error + string" where
  "createQueryString sch =
     (case getQueryType sch of
        None \<Rightarrow> Inl (Error ''Schema has no query type defined'')
      | Some queryType \<Rightarrow>
          Inr (''query{'' @ join '' '' (Object_keys (getFields queryType)) @ ''}''))"

text \<open>
  The callback of \<^verbatim>\<open>createMutationString\<close> for one mutation slot. The test
  \<^verbatim>\<open>!queryFieldName\<close> holds for \<^verbatim>\<open>undefined\<close> and for the empty string. The value
  is read from the record \<open>queryResults\<close> by key, and the template literal writes its
  text between the quotes.
\<close>

definition mutationFragment ::
  "MappedField list \<Rightarrow> js_record \<Rightarrow> string \<Rightarrow> error + string" where
  "mutationFragment fieldMappings queryResults mutationFieldName =
     (case findQueryFieldName fieldMappings mutationFieldName of
        None \<Rightarrow>
          Inl (Error (''Could not find query field for mutation field: '' @ mutationFieldName))
      | Some queryFieldName \<Rightarrow>
          if queryFieldName = []
          then Inl (Error (''Could not find query field for mutation field: ''
                 @ mutationFieldName))
          else
            (let v = propertyText queryResults queryFieldName
             in Inr (mutationFieldName @ ''(resolvedQuery:'' @ [dquote] @ v
                  @ [dquote] @ '')'')))"

definition createMutationString ::
  "GraphQLSchema \<Rightarrow> MappedField list \<Rightarrow> js_record \<Rightarrow> error + string"
  where
  "createMutationString sch fieldMappings queryResults =
     (case getMutationType sch of
        None \<Rightarrow> Inl (Error ''Schema has no mutation type defined'')
      | Some mutationType \<Rightarrow>
          (case mapE (mutationFragment fieldMappings queryResults)
                  (Object_keys (getFields mutationType)) of
             Inl e \<Rightarrow> Inl e
           | Inr frags \<Rightarrow> Inr (''mutation{'' @ join '' '' frags @ ''}'')))"

section \<open>Processes and the validator\<close>

text \<open>
  A process as \<^verbatim>\<open>validateProcess\<close> may receive it: every part may be missing.
\<close>

record ProcessOptions =
  fields' :: "MappedField list option"
  sourceIntegration :: "Integration option"
  targetIntegration :: "Integration option"

record Process =
  options :: "ProcessOptions option"
  schema :: "GraphQLSchema option"

definition invariant :: "bool \<Rightarrow> string \<Rightarrow> error + unit" where
  "invariant condition message =
     (if condition then Inr () else Inl (Error (''Invariant failed: '' @ message)))"

text \<open>
  \<^verbatim>\<open>a; b\<close> for two statements that may throw.
\<close>

definition andThen :: "error + unit \<Rightarrow> error + unit \<Rightarrow> error + unit" where
  "andThen a b = (case a of Inl e \<Rightarrow> Inl e | Inr u \<Rightarrow> b)"

text \<open>
  The body of the \<^verbatim>\<open>try\<close> block of \<^verbatim>\<open>validateProcess\<close>; the size of
  \<^verbatim>\<open>new Set(keys)\<close> is the number of different keys.
\<close>

definition validateChecks :: "Process option \<Rightarrow> error + unit" where
  "validateChecks process =
     (case process of
        None \<Rightarrow> invariant False ''Process is required''
      | Some p \<Rightarrow>
     (case options p of
        None \<Rightarrow> invariant False ''Options are required''
      | Some opts \<Rightarrow>
     (case fields' opts of
        None \<Rightarrow> invariant False ''Fields are required''
      | Some fs \<Rightarrow>
     (case sourceIntegration opts of
        None \<Rightarrow> invariant False ''Source integration is required''
      | Some src \<Rightarrow>
     (case targetIntegration opts of
        None \<Rightarrow> invariant False ''Target integration is required''
      | Some tgt \<Rightarrow>
     (case schema p of
        None \<Rightarrow> invariant False ''Schema is required''
      | Some sch \<Rightarrow>
          andThen (invariant (length fs > 0) ''Fields cannot be empty'')
         (andThen (invariant (length fs = card (set (sourceKeys fs)))
                     ''Source fields must be unique'')
         (andThen (invariant (length fs = card (set (targetKeys fs)))
                     ''Target fields must be unique'')
         (andThen (invariant (resolveQuery src \<noteq> None) ''Source must have a resolveQuery'')
         (andThen (invariant (resolveMutation tgt \<noteq> None)
                     ''Target must have a resolveMutation'')
         (andThen (invariant (getQueryType sch \<noteq> None) ''Schema must have a query type'')
         (andThen (invariant (getMutationType sch \<noteq> None)
                     ''Schema must have a mutation type'')
                  (invariant
                     (length (Object_keys
                        (case getQueryType sch of None \<Rightarrow> [] | Some t \<Rightarrow> getFields t))
                      = length (Object_keys
                        (case getMutationType sch of None \<Rightarrow> [] | Some t \<Rightarrow> getFields t)))
                     ''Schema must have as many query fields as there are mutation fields''
                  )))))))))))))"

definition validateProcess :: "Process option \<Rightarrow> bool" where
  "validateProcess process =
     (case validateChecks process of Inl e \<Rightarrow> False | Inr u \<Rightarrow> True)"

text \<open>
  \<^verbatim>\<open>createProcess\<close>. Reading \<^verbatim>\<open>resolveQuery\<close> of a missing integration, or mapping
  over a missing field list, is a \<open>TypeError\<close>.
\<close>

definition createProcess :: "ProcessOptions \<Rightarrow> error + Process" where
  "createProcess opts =
     (case (fields' opts, sourceIntegration opts, targetIntegration opts) of
        (Some fs, Some src, Some tgt) \<Rightarrow>
          (case createSchema fs src tgt of
             Inl e \<Rightarrow> Inl e
           | Inr sch \<Rightarrow>
               (let process = \<lparr>options = Some opts, schema = Some sch\<rparr>
                in if \<not> validateProcess (Some process)
                   then Inl (Error ''Invalid process'')
                   else Inr process))
      | _ \<Rightarrow> Inl TypeError)"

section \<open>Executing a text against the schema\<close>

text \<open>
  \<^verbatim>\<open>graphql({ schema, source })\<close> belongs to the graphql library, not to this
  repository. What the resolution engine needs of it is modelled here for the texts
  the two generators write: an operation keyword, and between braces a list of slot
  names, each with an optional argument list \<^verbatim>\<open>(name:"string" ...)\<close>. The lexer reads
  punctuators, names and string literals and skips blanks, line ends and commas. A
  string literal ends at the next double quote; a line end inside it is the library's
  "Unterminated string" error. Escape sequences, block strings, comments, numbers,
  variables, aliases, fragments, directives and nested selections are outside the
  model, which reports a text using them as an error, as it does a text that is not
  well-formed.
\<close>

datatype token = BRACE_L | BRACE_R | PAREN_L | PAREN_R | COLON | NAME string | STRING string

datatype lex_state =
  Between "token list"
  | InName "token list" string
  | InString "token list" string
  | LexError

definition isIgnored :: "char \<Rightarrow> bool" where
  "isIgnored c \<longleftrightarrow> c = CHR '' '' \<or> c = CHR 0x09 \<or> c = CHR 0x0A \<or> c = CHR 0x0D \<or> c = CHR '',''"

definition startToken :: "token list \<Rightarrow> char \<Rightarrow> lex_state" where
  "startToken ts c =
     (if isIgnored c then Between ts
      else if c = CHR ''{'' then Between (ts @ [BRACE_L])
      else if c = CHR ''}'' then Between (ts @ [BRACE_R])
      else if c = CHR ''('' then Between (ts @ [PAREN_L])
      else if c = CHR '')'' then Between (ts @ [PAREN_R])
      else if c = CHR '':'' then Between (ts @ [COLON])
      else if isNameStart c then InName ts [c]
      else if c = dquote then InString ts []
      else LexError)"

fun lexStep :: "lex_state \<Rightarrow> char \<Rightarrow> lex_state" where
  "lexStep (Between ts) c = startToken ts c"
| "lexStep (InName ts n) c =
     (if isNameContinue c then InName ts (n @ [c]) else startToken (ts @ [NAME n]) c)"
| "lexStep (InString ts s) c =
     (if c = dquote then Between (ts @ [STRING s])
      else if c = CHR 0x5C \<or> c = CHR 0x0A \<or> c = CHR 0x0D then LexError
      else InString ts (s @ [c]))"
| "lexStep LexError c = LexError"

fun lexEnd :: "lex_state \<Rightarrow> token list option" where
  "lexEnd (Between ts) = Some ts"
| "lexEnd (InName ts n) = Some (ts @ [NAME n])"
| "lexEnd (InString ts s) = None"
| "lexEnd LexError = None"

definition lex :: "string \<Rightarrow> token list option" where
  "lex source = lexEnd (foldl lexStep (Between []) source)"

datatype OperationType = QUERY | MUTATION

type_synonym selection = "string \<times> (string \<times> string) list"

datatype parse_state =
  Start
  | AfterOperation OperationType
  | InSelectionSet OperationType "selection list"
  | AfterField OperationType "selection list" string
  | InArguments OperationType "selection list" string "(string \<times> string) list"
  | AfterArgumentName OperationType "selection list" string "(string \<times> string) list" string
  | AfterColon OperationType "selection list" string "(string \<times> string) list" string
  | Finished OperationType "selection list"
  | ParseError

fun parseStep :: "parse_state \<Rightarrow> token \<Rightarrow> parse_state" where
  "parseStep Start (NAME n) =
     (if n = ''query'' then AfterOperation QUERY
      else if n = ''mutation'' then AfterOperation MUTATION
      else ParseError)"
| "parseStep (AfterOperation op) BRACE_L = InSelectionSet op []"
| "parseStep (InSelectionSet op sels) (NAME n) = AfterField op sels n"
| "parseStep (InSelectionSet op sels) BRACE_R =
     (if sels = [] then ParseError else Finished op sels)"
| "parseStep (AfterField op sels n) (NAME m) = AfterField op (sels @ [(n, [])]) m"
| "parseStep (AfterField op sels n) BRACE_R = Finished op (sels @ [(n, [])])"
| "parseStep (AfterField op sels n) PAREN_L = InArguments op sels n []"
| "parseStep (InArguments op sels n as) (NAME a) = AfterArgumentName op sels n as a"
| "parseStep (InArguments op sels n as) PAREN_R =
     (if as = [] then ParseError else InSelectionSet op (sels @ [(n, as)]))"
| "parseStep (AfterArgumentName op sels n as a) COLON = AfterColon op sels n as a"
| "parseStep (AfterColon op sels n as a) (STRING v) = InArguments op sels n (as @ [(a, v)])"
| "parseStep _ _ = ParseError"

fun parseEnd :: "parse_state \<Rightarrow> (OperationType \<times> selection list) option" where
  "parseEnd (Finished op sels) = Some (op, sels)"
| "parseEnd _ = None"

definition parse :: "string \<Rightarrow> (OperationType \<times> selection list) option" where
  "parse source =
     (case lex source of
        None \<Rightarrow> None
      | Some ts \<Rightarrow> parseEnd (foldl parseStep Start ts))"

text \<open>
  The library validates the schema before it reads the text: there must be a query
  type, every root type needs at least one slot, and a slot name must not begin with
  two underscores (reserved for introspection). A schema record with a slot name that
  is not a name cannot come from the constructor; it is rejected here as well.
\<close>

definition isReserved :: "string \<Rightarrow> bool" where
  "isReserved n \<longleftrightarrow> take 2 n = ''__''"

definition validateType :: "GraphQLObjectType \<Rightarrow> bool" where
  "validateType t \<longleftrightarrow>
     getFields t \<noteq> []
     \<and> list_all (\<lambda>n. assertName n \<and> \<not> isReserved n) (Object_keys (getFields t))"

definition validateSchema :: "GraphQLSchema \<Rightarrow> bool" where
  "validateSchema sch \<longleftrightarrow>
     (case getQueryType sch of None \<Rightarrow> False | Some t \<Rightarrow> validateType t)
     \<and> (case getMutationType sch of None \<Rightarrow> True | Some t \<Rightarrow> validateType t)"

text \<open>
  Validation of the text: the operation's root type exists, every selected slot is a
  slot of it, carries only arguments the slot declares, each once, and two selections
  of one slot carry the same arguments.
\<close>

definition rootType :: "GraphQLSchema \<Rightarrow> OperationType \<Rightarrow> GraphQLObjectType option" where
  "rootType sch op = (case op of QUERY \<Rightarrow> getQueryType sch | MUTATION \<Rightarrow> getMutationType sch)"

definition validSelection :: "GraphQLObjectType \<Rightarrow> selection list \<Rightarrow> selection \<Rightarrow> bool" where
  "validSelection t sels sel \<longleftrightarrow>
     (case map_of (getFields t) (fst sel) of
        None \<Rightarrow> False
      | Some cfg \<Rightarrow>
          list_all (\<lambda>a. fst a \<in> set (args cfg)) (snd sel)
          \<and> distinct (map fst (snd sel))
          \<and> list_all (\<lambda>other. fst other = fst sel \<longrightarrow> snd other = snd sel) sels)"

definition validate :: "GraphQLObjectType \<Rightarrow> selection list \<Rightarrow> bool" where
  "validate t sels \<longleftrightarrow> list_all (validSelection t sels) sels"

text \<open>
  Execution: selections of one slot are merged, every slot is resolved with its
  argument values (string literals), and the outcome is completed as a
  \<^verbatim>\<open>GraphQLString\<close>: a string stays, a boolean becomes its text, \<^verbatim>\<open>null\<close> and
  \<^verbatim>\<open>undefined\<close> become \<^verbatim>\<open>null\<close>. A rejected resolver leaves \<^verbatim>\<open>null\<close> in the data and
  an entry in the errors. \<open>errors = []\<close> stands for an absent \<^verbatim>\<open>result.errors\<close>.
\<close>

definition collectFields :: "selection list \<Rightarrow> selection list" where
  "collectFields sels =
     foldl (\<lambda>acc sel. if fst sel \<in> set (map fst acc) then acc else acc @ [sel]) [] sels"

fun serialize :: "FieldValue \<Rightarrow> FieldValue" where
  "serialize (VString s) = VString s"
| "serialize (VBoolean b) = VString (if b then ''true'' else ''false'')"
| "serialize VNull = VNull"
| "serialize VUndefined = VNull"

definition argumentValues :: "(string \<times> string) list \<Rightarrow> string \<Rightarrow> FieldValue option" where
  "argumentValues as = map_of (map (\<lambda>a. (fst a, VString (snd a))) as)"

definition executeField :: "GraphQLObjectType \<Rightarrow> selection \<Rightarrow> error + FieldValue" where
  "executeField t sel =
     (case map_of (getFields t) (fst sel) of
        None \<Rightarrow> Inl GraphQLError
      | Some cfg \<Rightarrow>
          (case resolve cfg (argumentValues (snd sel)) of
             Inl e \<Rightarrow> Inl GraphQLError
           | Inr v \<Rightarrow> Inr (serialize v)))"

record ExecutionResult =
  errors :: "error list"
  data :: "FieldValue js_object option"

definition execute :: "GraphQLObjectType \<Rightarrow> selection list \<Rightarrow> ExecutionResult" where
  "execute t sels =
     (let results = map (\<lambda>sel. (fst sel, executeField t sel)) (collectFields sels)
      in \<lparr>errors = concat (map (\<lambda>r. case snd r of Inl e \<Rightarrow> [e] | Inr v \<Rightarrow> []) results),
          data = Some (map (\<lambda>r. (fst r, case snd r of Inl e \<Rightarrow> VNull | Inr v \<Rightarrow> v)) results)\<rparr>)"

definition graphql :: "GraphQLSchema \<Rightarrow> string \<Rightarrow> ExecutionResult" where
  "graphql sch source =
     (if \<not> validateSchema sch then \<lparr>errors = [GraphQLError], data = None\<rparr>
      else
        (case parse source of
           None \<Rightarrow> \<lparr>errors = [GraphQLError], data = None\<rparr>
         | Some doc \<Rightarrow>
             (case rootType sch (fst doc) of
                None \<Rightarrow> \<lparr>errors = [GraphQLError], data = None\<rparr>
              | Some t \<Rightarrow>
                  if \<not> validate t (snd doc) then \<lparr>errors = [GraphQLError], data = None\<rparr>
                  else execute t (snd doc))))"

section \<open>Resolution engine and orchestrator\<close>

text \<open>
  \<^verbatim>\<open>resolveSource\<close>, \<^verbatim>\<open>resolveTarget\<close> and \<^verbatim>\<open>sync\<close>. The messages of the two
  execution errors are kept up to the interpolated error list. Reading the schema, the
  options or the field list of a process that lacks them ends in a \<open>TypeError\<close>. The
  data object of the query phase is read by key in \<^verbatim>\<open>createMutationString\<close>; the
  library creates it without a prototype, so it has its own properties only
  (\<open>dataObject\<close>). \<^verbatim>\<open>result.data || null\<close> is the data, an object being truthy. In
  \<^verbatim>\<open>sync\<close> the \<^verbatim>\<open>catch\<close> turns every error of the two phases into \<^verbatim>\<open>null\<close>
  (\<open>None\<close>); \<open>Inl\<close> would be an exception that leaves \<^verbatim>\<open>sync\<close>.
\<close>

definition resolveSource :: "Process option \<Rightarrow> error + FieldValue js_object" where
  "resolveSource process =
     (case process of
        None \<Rightarrow> Inl TypeError
      | Some p \<Rightarrow>
     (case schema p of
        None \<Rightarrow> Inl TypeError
      | Some sch \<Rightarrow>
     (case createQueryString sch of
        Inl e \<Rightarrow> Inl e
      | Inr query \<Rightarrow>
          (let result = graphql sch query
           in if errors result \<noteq> [] then Inl (Error ''Query execution failed'')
              else (case data result of
                      None \<Rightarrow> Inl (Error ''Query data unavailable'')
                    | Some d \<Rightarrow> Inr d)))))"

definition dataObject :: "FieldValue js_object \<Rightarrow> js_record" where
  "dataObject d = \<lparr>ownProperties = map_of d, inheritedText = Map.empty\<rparr>"

definition resolveTarget ::
  "Process option \<Rightarrow> js_record \<Rightarrow> error + FieldValue js_object option" where
  "resolveTarget process queryResults =
     (case process of
        None \<Rightarrow> Inl TypeError
      | Some p \<Rightarrow>
     (case (schema p, options p) of
        (Some sch, Some opts) \<Rightarrow>
          (case fields' opts of
             None \<Rightarrow> Inl TypeError
           | Some fs \<Rightarrow>
          (case createMutationString sch fs queryResults of
             Inl e \<Rightarrow> Inl e
           | Inr mutation \<Rightarrow>
               (let result = graphql sch mutation
                in if errors result \<noteq> [] then Inl (Error ''Mutation execution failed'')
                   else Inr (data result))))
      | _ \<Rightarrow> Inl TypeError))"

definition sync :: "Process option \<Rightarrow> error + FieldValue js_object option" where
  "sync process =
     (if \<not> validateProcess process then Inr None
      else
        (case resolveSource process of
           Inl e \<Rightarrow> Inr None
         | Inr queryResults \<Rightarrow>
             (case resolveTarget process (dataObject queryResults) of
                Inl e \<Rightarrow> Inr None
              | Inr mutationResults \<Rightarrow> Inr mutationResults)))"

section \<open>Notions used in the statements\<close>


definition spec_fragment :: "string \<Rightarrow> string \<Rightarrow> string" where
  "spec_fragment mutationSlotName v =
     mutationSlotName @ ''(resolvedQuery:'' @ [dquote] @ v @ [dquote] @ '')''"

definition spec_mutationText :: "string list \<Rightarrow> string" where
  "spec_mutationText fragments = ''mutation{'' @ join '' '' fragments @ ''}''"

text \<open>
  A plain character is one that a string literal of the mutation text holds as it is:
  no double quote, no backslash, no line break. A mapping list has no reserved keys when
  none of its keys begins with two underscores. \<open>fragmentTokens\<close> are the tokens of one
  fragment.
\<close>

definition isPlain :: "char \<Rightarrow> bool" where
  "isPlain c \<longleftrightarrow> c \<noteq> dquote \<and> c \<noteq> CHR 0x5C \<and> c \<noteq> CHR 0x0A \<and> c \<noteq> CHR 0x0D"

definition noReservedKeys :: "MappedField list \<Rightarrow> bool" where
  "noReservedKeys fs \<longleftrightarrow>
     list_all (\<lambda>f. \<not> isReserved (key (sourceField f)) \<and> \<not> isReserved (key (targetField f))) fs"

definition fragmentTokens :: "string \<Rightarrow> string \<Rightarrow> token list" where
  "fragmentTokens m v = [NAME m, PAREN_L, NAME ''resolvedQuery'', COLON, STRING v, PAREN_R]"

section \<open>Fixtures\<close>

text \<open>
  The integrations and the mapping list of \<^verbatim>\<open>nanosync.test.ts\<close> with the process and
  the schema built from them, and further inputs: a mapping list with repeated keys, one
  whose source key is also its target key, one with an empty source key, one whose
  source key \<^verbatim>\<open>toString\<close> names a member of \<^verbatim>\<open>Object.prototype\<close>, an object
  literal (its members inherited from \<^verbatim>\<open>Object.prototype\<close> with the text V8 prints for
  them) as query results, with and without an entry for \<^verbatim>\<open>age\<close> and with an entry
  for the empty key, a source whose values hold double quotes, one whose values hold a line
  break, a source and a target whose resolvers reject, a process whose mapping list does
  not pair every slot of its schema, and a process whose schema has no query type.
\<close>

definition mockSourceIntegration :: Integration where
  "mockSourceIntegration =
     \<lparr>name = ''source'', description = ''source integration'',
      resolveQuery = Some (\<lambda>k. Inr (VString (''source_'' @ k @ ''_value''))),
      resolveMutation = Some (\<lambda>k v. Inr (VString (''mutated_'' @ k @ ''_'' @ String' v)))\<rparr>"

definition mockTargetIntegration :: Integration where
  "mockTargetIntegration =
     \<lparr>name = ''target'', description = ''target integration'',
      resolveQuery = Some (\<lambda>k. Inr (VString (''target_'' @ k @ ''_value''))),
      resolveMutation = Some (\<lambda>k v. Inr (VString (''mutated_'' @ k @ ''_'' @ String' v)))\<rparr>"

definition mockMappedFields :: "MappedField list" where
  "mockMappedFields =
     [\<lparr>sourceField = \<lparr>key = ''name'', type = T_string\<rparr>,
       targetField = \<lparr>key = ''fullName'', type = T_string\<rparr>\<rparr>,
      \<lparr>sourceField = \<lparr>key = ''age'', type = T_number\<rparr>,
       targetField = \<lparr>key = ''userAge'', type = T_number\<rparr>\<rparr>]"

definition mockOptions :: ProcessOptions where
  "mockOptions =
     \<lparr>fields' = Some mockMappedFields,
      sourceIntegration = Some mockSourceIntegration,
      targetIntegration = Some mockTargetIntegration\<rparr>"

definition mockSchema :: GraphQLSchema where
  "mockSchema =
     \<lparr>getQueryType = Some (createQuerySchema mockMappedFields (resolveQuery mockSourceIntegration)),
      getMutationType =
        Some (createMutationSchema mockMappedFields (resolveMutation mockTargetIntegration))\<rparr>"

definition duplicateFields :: "MappedField list" where
  "duplicateFields =
     [mapped ''name'' ''fullName'', mapped ''age'' ''fullName'', mapped ''name'' ''userAge'']"

definition duplicateSchema :: GraphQLSchema where
  "duplicateSchema =
     \<lparr>getQueryType = Some (createQuerySchema duplicateFields (resolveQuery mockSourceIntegration)),
      getMutationType =
        Some (createMutationSchema duplicateFields (resolveMutation mockTargetIntegration))\<rparr>"

definition sharedKeyFields :: "MappedField list" where
  "sharedKeyFields = [mapped ''id'' ''id'']"

definition nativeCode :: "string \<Rightarrow> string" where
  "nativeCode f = ''function '' @ f @ ''() { [native code] }''"

definition objectPrototype :: "string \<Rightarrow> string option" where
  "objectPrototype =
     map_of
       [(''constructor'', nativeCode ''Object''),
        (''__defineGetter__'', nativeCode ''__defineGetter__''),
        (''__defineSetter__'', nativeCode ''__defineSetter__''),
        (''hasOwnProperty'', nativeCode ''hasOwnProperty''),
        (''__lookupGetter__'', nativeCode ''__lookupGetter__''),
        (''__lookupSetter__'', nativeCode ''__lookupSetter__''),
        (''isPrototypeOf'', nativeCode ''isPrototypeOf''),
        (''propertyIsEnumerable'', nativeCode ''propertyIsEnumerable''),
        (''toString'', nativeCode ''toString''),
        (''valueOf'', nativeCode ''valueOf''),
        (''__proto__'', ''[object Object]''),
        (''toLocaleString'', nativeCode ''toLocaleString'')]"

definition plainObject :: "(string \<Rightarrow> FieldValue option) \<Rightarrow> js_record" where
  "plainObject properties = \<lparr>ownProperties = properties, inheritedText = objectPrototype\<rparr>"

definition missingAgeResults :: js_record where
  "missingAgeResults = plainObject [''name'' \<mapsto> VString ''source_name_value'']"


definition inheritedKeyFields :: "MappedField list" where
  "inheritedKeyFields = [mapped ''toString'' ''fullName'', mapped ''age'' ''userAge'']"



definition processOf :: "Integration \<Rightarrow> Integration \<Rightarrow> Process" where
  "processOf src tgt =
     \<lparr>options = Some \<lparr>fields' = Some mockMappedFields, sourceIntegration = Some src,
        targetIntegration = Some tgt\<rparr>,
      schema = Some
        \<lparr>getQueryType = Some (createQuerySchema mockMappedFields (resolveQuery src)),
         getMutationType = Some (createMutationSchema mockMappedFields (resolveMutation tgt))\<rparr>\<rparr>"

definition quotedSourceIntegration :: Integration where
  "quotedSourceIntegration =
     \<lparr>name = ''source'', description = ''source integration'',
      resolveQuery = Some (\<lambda>k. Inr (VString (''the '' @ [dquote] @ k @ [dquote]))),
      resolveMutation = Some (\<lambda>k v. Inr (VString (''mutated_'' @ k @ ''_'' @ String' v)))\<rparr>"

definition multilineSourceIntegration :: Integration where
  "multilineSourceIntegration =
     \<lparr>name = ''source'', description = ''source integration'',
      resolveQuery = Some (\<lambda>k. Inr (VString (k @ '':'' @ [CHR 0x0A] @ ''second line''))),
      resolveMutation = Some (\<lambda>k v. Inr (VString (''mutated_'' @ k @ ''_'' @ String' v)))\<rparr>"

definition offlineSourceIntegration :: Integration where
  "offlineSourceIntegration =
     \<lparr>name = ''source'', description = ''source integration'',
      resolveQuery = Some (\<lambda>k. Inl (Error ''offline'')),
      resolveMutation = Some (\<lambda>k v. Inr (VString (''mutated_'' @ k @ ''_'' @ String' v)))\<rparr>"

definition readOnlyTargetIntegration :: Integration where
  "readOnlyTargetIntegration =
     \<lparr>name = ''target'', description = ''target integration'',
      resolveQuery = Some (\<lambda>k. Inr (VString (''target_'' @ k @ ''_value''))),
      resolveMutation = Some (\<lambda>k v. Inl (Error ''read only''))\<rparr>"

definition mismatchedProcess :: Process where
  "mismatchedProcess =
     \<lparr>options = Some (mockOptions\<lparr>fields' := Some [mapped ''name'' ''fullName'']\<rparr>),
      schema = Some mockSchema\<rparr>"

definition noQueryProcess :: Process where
  "noQueryProcess =
     \<lparr>options = Some mockOptions,
      schema = Some \<lparr>getQueryType = None, getMutationType = None\<rparr>\<rparr>"

section \<open>Lookups\<close>

lemma findQueryFieldName_mem:
  "findQueryFieldName fs t = Some s \<Longrightarrow>
     \<exists>f \<in> set fs. key (targetField f) = t \<and> key (sourceField f) = s"
  unfolding findQueryFieldName_def
  by (induction fs) (auto split: if_splits)

lemma count_list_0_notin: "count_list xs x = 0 \<Longrightarrow> x \<notin> set xs"
  by (induction xs) (auto split: if_splits)

lemma find_unique_source:
  "f \<in> set fs \<Longrightarrow> count_list (sourceKeys fs) (key (sourceField f)) = 1 \<Longrightarrow>
     find (\<lambda>g. key (sourceField f) = key (sourceField g)) fs = Some f"
proof (induction fs)
  case Nil
  then show ?case by simp
next
  case (Cons x xs)
  show ?case
  proof (cases "key (sourceField f) = key (sourceField x)")
    case True
    with Cons.prems(2) have "count_list (sourceKeys xs) (key (sourceField f)) = 0"
      by simp
    then have "key (sourceField f) \<notin> set (sourceKeys xs)"
      by (rule count_list_0_notin)
    then have "f \<notin> set xs" by auto
    with Cons.prems(1) have "f = x" by simp
    then show ?thesis by simp
  next
    case False
    with Cons.prems have "f \<in> set xs"
      and "count_list (sourceKeys xs) (key (sourceField f)) = 1"
      by auto
    with Cons.IH False show ?thesis by simp
  qed
qed

text \<open>
  C8, as amended. For a target key \<open>t\<close> that appears exactly once as a
  \<^verbatim>\<open>targetField.key\<close> and whose paired source key \<open>s\<close> appears exactly once as a
  \<^verbatim>\<open>sourceField.key\<close>, looking \<open>s\<close> up gives \<open>t\<close> back:
  \<^verbatim>\<open>findMutationFieldName(fields, findQueryFieldName(fields, t)) == t\<close>.
\<close>

theorem inverse_lookup_unique_source:
  assumes "count_list (targetKeys fs) t = 1"
    and "findQueryFieldName fs t = Some s"
    and "count_list (sourceKeys fs) s = 1"
  shows "inverseLookup fs t = Some t"
proof -
  from assms(2) obtain f where f: "f \<in> set fs" "key (targetField f) = t"
    "key (sourceField f) = s"
    using findQueryFieldName_mem by blast
  from f(1) f(3) assms(3)
  have "find (\<lambda>g. s = key (sourceField g)) fs = Some f"
    using find_unique_source [of f fs] by simp
  then have "findMutationFieldName fs s = Some t"
    by (simp add: findMutationFieldName_def f(2))
  with assms(2) show ?thesis by (simp add: inverseLookup_def)
qed

theorem inverse_lookup_unique_source_witness:
  "count_list (targetKeys [mapped ''name'' ''fullName'', mapped ''age'' ''userAge'']) ''userAge'' = 1
   \<and> findQueryFieldName [mapped ''name'' ''fullName'', mapped ''age'' ''userAge''] ''userAge''
       = Some ''age''
   \<and> count_list (sourceKeys [mapped ''name'' ''fullName'', mapped ''age'' ''userAge'']) ''age'' = 1
   \<and> inverseLookup [mapped ''name'' ''fullName'', mapped ''age'' ''userAge''] ''userAge''
       = Some ''userAge''"
proof -
  let ?fs = "[mapped ''name'' ''fullName'', mapped ''age'' ''userAge'']"
  have a: "count_list (targetKeys ?fs) ''userAge'' = 1"
    by (simp add: mapped_def)
  have b: "findQueryFieldName ?fs ''userAge'' = Some ''age''"
    by (simp add: findQueryFieldName_def mapped_def)
  have c: "count_list (sourceKeys ?fs) ''age'' = 1"
    by (simp add: mapped_def)
  from inverse_lookup_unique_source [OF a b c] a b c show ?thesis by simp
qed

text \<open>
  C8 as stated fails: in the list \<open>[s \<rightarrow> a, s \<rightarrow> t]\<close> the target key \<open>t\<close> appears
  exactly once, its paired source key is \<open>s\<close>, and the first entry with source key
  \<open>s\<close> has target \<open>a\<close>.
\<close>

theorem inverse_lookup_counterexample:
  "count_list (targetKeys [mapped ''s'' ''a'', mapped ''s'' ''t'']) ''t'' = 1
   \<and> inverseLookup [mapped ''s'' ''a'', mapped ''s'' ''t''] ''t'' = Some ''a''
   \<and> inverseLookup [mapped ''s'' ''a'', mapped ''s'' ''t''] ''t'' \<noteq> Some ''t''"
  by (simp add: inverseLookup_def findQueryFieldName_def findMutationFieldName_def mapped_def)

section \<open>Schema builder\<close>

lemma spread_single: "spread acc [(k, v)] = AList.update k v acc"
  by (simp add: spread_def)

lemma keys_reduce_spread:
  "map fst (foldl spread [] (map (\<lambda>f. [(kf f, vf f)]) fs)) = rev (remdups (rev (map kf fs)))"
proof (induction fs rule: rev_induct)
  case Nil
  then show ?case by simp
next
  case (snoc x xs)
  then show ?case
    by (simp add: spread_single update_keys)
qed

lemma distinct_reduce_spread:
  "distinct (map fst (foldl spread [] (map (\<lambda>f. [(kf f, vf f)]) fs)))"
  by (simp add: keys_reduce_spread)

lemma keys_reduce_spread_distinct:
  "distinct (map kf fs) \<Longrightarrow>
     map fst (foldl spread [] (map (\<lambda>f. [(kf f, vf f)]) fs)) = map kf fs"
  by (simp add: keys_reduce_spread distinct_remdups_id)

lemma map_of_reduce_spread:
  "map_of (foldl spread [] (map (\<lambda>f. [(kf f, vf f)]) fs))
     = map_of (rev (map (\<lambda>f. (kf f, vf f)) fs))"
proof (induction fs rule: rev_induct)
  case Nil
  then show ?case by simp
next
  case (snoc x xs)
  then show ?case
    by (simp add: spread_single update_conv')
qed

lemma map_of_rev_last:
  "x \<in> set fs \<Longrightarrow>
     map_of (rev (map (\<lambda>f. (kf f, vf f)) fs)) (kf x)
       = Some (vf (last (filter (\<lambda>g. kf g = kf x) fs)))"
proof (induction fs rule: rev_induct)
  case Nil
  then show ?case by simp
next
  case (snoc y ys)
  then show ?case by (cases "kf y = kf x") auto
qed

lemma distinct_count_list_1: "distinct xs \<Longrightarrow> x \<in> set xs \<Longrightarrow> count_list xs x = 1"
  by (induction xs) (auto simp: count_list_0_iff)

lemma createSchema_Inr:
  "createSchema fs src tgt = Inr sch \<Longrightarrow>
     getQueryType sch = Some (createQuerySchema fs (resolveQuery src))
     \<and> getMutationType sch = Some (createMutationSchema fs (resolveMutation tgt))"
  by (auto simp: createSchema_def new_GraphQLSchema_def split: if_splits)

lemma query_keys:
  "Object_keys (getFields (createQuerySchema fs r)) = rev (remdups (rev (sourceKeys fs)))"
  by (simp add: createQuerySchema_def Object_keys_def keys_reduce_spread)

lemma mutation_keys:
  "Object_keys (getFields (createMutationSchema fs r)) = rev (remdups (rev (targetKeys fs)))"
  by (simp add: createMutationSchema_def Object_keys_def keys_reduce_spread)

lemma query_slot:
  "f \<in> set fs \<Longrightarrow>
     map_of (getFields (createQuerySchema fs r)) (key (sourceField f))
       = Some (queryFieldConfig r
           (last (filter (\<lambda>g. key (sourceField g) = key (sourceField f)) fs)))"
  using map_of_rev_last [of f fs "\<lambda>f. key (sourceField f)" "queryFieldConfig r"]
  by (simp add: createQuerySchema_def map_of_reduce_spread)

lemma mutation_slot:
  "f \<in> set fs \<Longrightarrow>
     map_of (getFields (createMutationSchema fs r)) (key (targetField f))
       = Some (mutationFieldConfig r
           (last (filter (\<lambda>g. key (targetField g) = key (targetField f)) fs)))"
  using map_of_rev_last [of f fs "\<lambda>f. key (targetField f)" "mutationFieldConfig r"]
  by (simp add: createMutationSchema_def map_of_reduce_spread)

text \<open>
  C10. Whatever the mapping list, a schema that \<^verbatim>\<open>createSchema\<close> builds has both slot-sets,
  the slot names of each are pairwise distinct, and every source key (target key) of the
  list names exactly one query slot (mutation slot), whose configuration, resolver
  included, is the one made from the last entry of the list with that key.
\<close>

theorem createSchema_one_slot_per_key:
  assumes "createSchema fs src tgt = Inr sch"
  shows "\<exists>qt mt. getQueryType sch = Some qt \<and> getMutationType sch = Some mt
    \<and> distinct (Object_keys (getFields qt))
    \<and> distinct (Object_keys (getFields mt))
    \<and> (\<forall>f \<in> set fs.
          count_list (Object_keys (getFields qt)) (key (sourceField f)) = 1
          \<and> map_of (getFields qt) (key (sourceField f))
              = Some (queryFieldConfig (resolveQuery src)
                  (last (filter (\<lambda>g. key (sourceField g) = key (sourceField f)) fs))))
    \<and> (\<forall>f \<in> set fs.
          count_list (Object_keys (getFields mt)) (key (targetField f)) = 1
          \<and> map_of (getFields mt) (key (targetField f))
              = Some (mutationFieldConfig (resolveMutation tgt)
                  (last (filter (\<lambda>g. key (targetField g) = key (targetField f)) fs))))"
proof -
  let ?qt = "createQuerySchema fs (resolveQuery src)"
  let ?mt = "createMutationSchema fs (resolveMutation tgt)"
  from assms have t: "getQueryType sch = Some ?qt" "getMutationType sch = Some ?mt"
    using createSchema_Inr by blast+
  have dq: "distinct (Object_keys (getFields ?qt))" by (simp add: query_keys)
  have dm: "distinct (Object_keys (getFields ?mt))" by (simp add: mutation_keys)
  have q: "count_list (Object_keys (getFields ?qt)) (key (sourceField f)) = 1"
    if "f \<in> set fs" for f
    using that dq by (intro distinct_count_list_1) (auto simp: query_keys)
  have m: "count_list (Object_keys (getFields ?mt)) (key (targetField f)) = 1"
    if "f \<in> set fs" for f
    using that dm by (intro distinct_count_list_1) (auto simp: mutation_keys)
  from t dq dm q m query_slot mutation_slot show ?thesis by simp
qed

lemma createSchema_distinct_keys:
  assumes "createSchema fs src tgt = Inr sch"
    and "distinct (sourceKeys fs)"
    and "distinct (targetKeys fs)"
  shows "\<exists>qt mt. getQueryType sch = Some qt \<and> getMutationType sch = Some mt
    \<and> Object_keys (getFields qt) = sourceKeys fs
    \<and> Object_keys (getFields mt) = targetKeys fs"
proof -
  from assms(1) have t: "getQueryType sch = Some (createQuerySchema fs (resolveQuery src))"
    "getMutationType sch = Some (createMutationSchema fs (resolveMutation tgt))"
    using createSchema_Inr by blast+
  from assms(2) have "Object_keys (getFields (createQuerySchema fs (resolveQuery src)))
      = sourceKeys fs"
    by (simp add: query_keys distinct_remdups_id)
  moreover from assms(3)
  have "Object_keys (getFields (createMutationSchema fs (resolveMutation tgt)))
      = targetKeys fs"
    by (simp add: mutation_keys distinct_remdups_id)
  ultimately show ?thesis using t by simp
qed

text \<open>
  C7. For a valid mapping list (non-empty, source keys pairwise distinct, target keys
  pairwise distinct) the schema that \<^verbatim>\<open>createSchema\<close> builds has as many query slots
  as mutation slots, and as many of each as the list has entries.
\<close>

theorem createSchema_cardinality:
  assumes "createSchema fs src tgt = Inr sch"
    and "fs \<noteq> []"
    and "distinct (sourceKeys fs)"
    and "distinct (targetKeys fs)"
  shows "\<exists>qt mt. getQueryType sch = Some qt \<and> getMutationType sch = Some mt
    \<and> length (Object_keys (getFields qt)) = length (Object_keys (getFields mt))
    \<and> length (Object_keys (getFields qt)) = length fs
    \<and> length (Object_keys (getFields mt)) = length fs"
proof -
  from createSchema_distinct_keys [OF assms(1) assms(3) assms(4)]
  obtain qt mt where "getQueryType sch = Some qt" "getMutationType sch = Some mt"
    "Object_keys (getFields qt) = sourceKeys fs" "Object_keys (getFields mt) = targetKeys fs"
    by blast
  then show ?thesis by simp
qed

text \<open>
  C4. For a schema built from a mapping list, \<^verbatim>\<open>createQueryString\<close> returns
  \<^verbatim>\<open>query{\<close>, the query slot names in field-list order (each source key at its first
  occurrence; the source keys themselves when they are pairwise distinct) joined by
  single spaces, and \<^verbatim>\<open>}\<close>. For a schema without a query slot-set it fails with the
  error "Schema has no query type defined".
\<close>

theorem createQueryString_text:
  "(createSchema fs src tgt = Inr sch \<longrightarrow>
      createQueryString sch
        = Inr (''query{'' @ join '' '' (rev (remdups (rev (sourceKeys fs)))) @ ''}'')
      \<and> (distinct (sourceKeys fs) \<longrightarrow>
           createQueryString sch = Inr (''query{'' @ join '' '' (sourceKeys fs) @ ''}'')))
   \<and> (getQueryType sch' = None \<longrightarrow>
        createQueryString sch' = Inl (Error ''Schema has no query type defined''))"
proof -
  have "createQueryString sch
        = Inr (''query{'' @ join '' '' (rev (remdups (rev (sourceKeys fs)))) @ ''}'')"
    if "createSchema fs src tgt = Inr sch"
    using createSchema_Inr [OF that] by (simp add: createQueryString_def query_keys)
  then show ?thesis
    by (auto simp: createQueryString_def distinct_remdups_id)
qed





lemma propertyText_dataObject:
  "propertyText (dataObject d) k
     = String' (case map_of d k of None \<Rightarrow> VUndefined | Some x \<Rightarrow> x)"
  by (simp add: propertyText_def dataObject_def split: option.splits)




lemma length_card_image:
  "(length xs = card (f ` set xs)) = distinct (map f xs)"
  using card_distinct [of "map f xs"] distinct_card [of "map f xs"] by auto

lemma validateProcess_iff:
  "validateProcess (Some \<lparr>options = Some \<lparr>fields' = Some fs, sourceIntegration = Some src,
        targetIntegration = Some tgt\<rparr>, schema = Some sch\<rparr>)
   \<longleftrightarrow> fs \<noteq> [] \<and> distinct (sourceKeys fs) \<and> distinct (targetKeys fs)
       \<and> resolveQuery src \<noteq> None \<and> resolveMutation tgt \<noteq> None
       \<and> (\<exists>qt mt. getQueryType sch = Some qt \<and> getMutationType sch = Some mt
            \<and> length (Object_keys (getFields qt)) = length (Object_keys (getFields mt)))"
proof -
  show ?thesis
    unfolding validateProcess_def validateChecks_def andThen_def invariant_def
    by (auto simp: length_card_image split: option.splits)
qed

lemma validateProcess_duplicates:
  assumes "options p = Some opts" and "fields' opts = Some fs"
    and "\<not> distinct (sourceKeys fs) \<or> \<not> distinct (targetKeys fs)"
  shows "\<not> validateProcess (Some p)"
proof -
  from assms show ?thesis
    unfolding validateProcess_def validateChecks_def andThen_def invariant_def
    by (auto simp: length_card_image split: option.splits)
qed

lemma assertName_simps:
  "assertName ''name''" "assertName ''age''" "assertName ''fullName''" "assertName ''userAge''"
  by (simp_all add: isNameStart_def isNameContinue_def isDigit_def)

lemma mock_query_fields:
  "getFields (createQuerySchema mockMappedFields r)
     = [(''name'', queryFieldConfig r (mockMappedFields ! 0)),
        (''age'', queryFieldConfig r (mockMappedFields ! 1))]"
  by (simp add: createQuerySchema_def mockMappedFields_def spread_def)

lemma mock_mutation_fields:
  "getFields (createMutationSchema mockMappedFields r)
     = [(''fullName'', mutationFieldConfig r (mockMappedFields ! 0)),
        (''userAge'', mutationFieldConfig r (mockMappedFields ! 1))]"
  by (simp add: createMutationSchema_def mockMappedFields_def spread_def)

lemma mock_createSchema:
  "createSchema mockMappedFields mockSourceIntegration mockTargetIntegration = Inr mockSchema"
  by (simp add: createSchema_def new_GraphQLSchema_def validFieldNames_def mockSchema_def
      Object_keys_def mock_query_fields mock_mutation_fields assertName_simps
      del: assertName.simps)

text \<open>
  C9. Once the schema is built, \<^verbatim>\<open>createProcess\<close> returns the process made of the
  options and the schema when the validator accepts it, and fails with the error
  "Invalid process" when the validator rejects it. With an empty field list it fails.
  Every process it returns is accepted by the validator and holds the options and the
  schema derived from them.
\<close>

theorem createProcess_validated:
  "(fields' opts = Some fs \<and> sourceIntegration opts = Some src
      \<and> targetIntegration opts = Some tgt \<and> createSchema fs src tgt = Inr sch \<longrightarrow>
      (if validateProcess (Some \<lparr>options = Some opts, schema = Some sch\<rparr>)
       then createProcess opts = Inr \<lparr>options = Some opts, schema = Some sch\<rparr>
       else createProcess opts = Inl (Error ''Invalid process'')))
   \<and> (fields' opts = Some [] \<longrightarrow> (\<exists>e. createProcess opts = Inl e))
   \<and> (createProcess opts = Inr p \<longrightarrow>
        validateProcess (Some p) \<and> options p = Some opts
        \<and> (\<exists>fs src tgt sch. fields' opts = Some fs \<and> sourceIntegration opts = Some src
             \<and> targetIntegration opts = Some tgt \<and> createSchema fs src tgt = Inr sch
             \<and> schema p = Some sch))"
proof -
  have 1: "if validateProcess (Some \<lparr>options = Some opts, schema = Some sch\<rparr>)
       then createProcess opts = Inr \<lparr>options = Some opts, schema = Some sch\<rparr>
       else createProcess opts = Inl (Error ''Invalid process'')"
    if "fields' opts = Some fs \<and> sourceIntegration opts = Some src
      \<and> targetIntegration opts = Some tgt \<and> createSchema fs src tgt = Inr sch"
    using that by (simp add: createProcess_def)
  have 2: "\<exists>e. createProcess opts = Inl e" if e: "fields' opts = Some []"
  proof -
    have "\<not> validateProcess (Some \<lparr>options = Some opts, schema = Some s\<rparr>)" for s
      using e unfolding validateProcess_def validateChecks_def andThen_def invariant_def
      by (simp split: option.splits)
    with e show ?thesis
      by (auto simp: createProcess_def split: option.splits sum.splits)
  qed
  have 3: "validateProcess (Some p) \<and> options p = Some opts
        \<and> (\<exists>fs src tgt sch. fields' opts = Some fs \<and> sourceIntegration opts = Some src
             \<and> targetIntegration opts = Some tgt \<and> createSchema fs src tgt = Inr sch
             \<and> schema p = Some sch)"
    if "createProcess opts = Inr p"
    using that
    by (auto simp: createProcess_def Let_def split: option.splits sum.splits if_splits)
  from 1 2 3 show ?thesis by blast
qed

lemma mock_validate:
  "validateProcess (Some \<lparr>options = Some mockOptions, schema = Some mockSchema\<rparr>)"
  unfolding mockOptions_def
  by (simp add: validateProcess_iff mockSchema_def Object_keys_def mock_query_fields
      mock_mutation_fields)
    (simp add: mockMappedFields_def mockSourceIntegration_def mockTargetIntegration_def)

theorem createProcess_validated_witness:
  "fields' mockOptions = Some mockMappedFields
   \<and> createSchema mockMappedFields mockSourceIntegration mockTargetIntegration = Inr mockSchema
   \<and> validateProcess (Some \<lparr>options = Some mockOptions, schema = Some mockSchema\<rparr>)
   \<and> createProcess mockOptions = Inr \<lparr>options = Some mockOptions, schema = Some mockSchema\<rparr>
   \<and> fields' (mockOptions\<lparr>fields' := Some []\<rparr>) = Some []
   \<and> (\<exists>e. createProcess (mockOptions\<lparr>fields' := Some []\<rparr>) = Inl e)"
proof -
  have a: "fields' mockOptions = Some mockMappedFields \<and>
    sourceIntegration mockOptions = Some mockSourceIntegration \<and>
    targetIntegration mockOptions = Some mockTargetIntegration \<and>
    createSchema mockMappedFields mockSourceIntegration mockTargetIntegration = Inr mockSchema"
    by (simp add: mockOptions_def mock_createSchema)
  have b: "fields' (mockOptions\<lparr>fields' := Some []\<rparr>) = Some []" by simp
  from createProcess_validated [of mockOptions mockMappedFields mockSourceIntegration
      mockTargetIntegration mockSchema]
    createProcess_validated [of "mockOptions\<lparr>fields' := Some []\<rparr>"]
    a b mock_validate
  show ?thesis by simp
qed

lemma duplicate_query_fields:
  "getFields (createQuerySchema duplicateFields r)
     = [(''name'', queryFieldConfig r (mapped ''name'' ''userAge'')),
        (''age'', queryFieldConfig r (mapped ''age'' ''fullName''))]"
  by (simp add: createQuerySchema_def duplicateFields_def spread_def mapped_def)

lemma duplicate_mutation_fields:
  "getFields (createMutationSchema duplicateFields r)
     = [(''fullName'', mutationFieldConfig r (mapped ''age'' ''fullName'')),
        (''userAge'', mutationFieldConfig r (mapped ''name'' ''userAge''))]"
  by (simp add: createMutationSchema_def duplicateFields_def spread_def mapped_def)

lemma duplicate_createSchema:
  "createSchema duplicateFields mockSourceIntegration mockTargetIntegration
     = Inr duplicateSchema"
  by (simp add: createSchema_def new_GraphQLSchema_def validFieldNames_def duplicateSchema_def
      Object_keys_def duplicate_query_fields duplicate_mutation_fields assertName_simps
      del: assertName.simps)

theorem createSchema_one_slot_per_key_witness:
  "createSchema duplicateFields mockSourceIntegration mockTargetIntegration
     = Inr duplicateSchema
   \<and> (\<exists>qt mt. getQueryType duplicateSchema = Some qt \<and> getMutationType duplicateSchema = Some mt
        \<and> distinct (Object_keys (getFields qt)) \<and> distinct (Object_keys (getFields mt))
        \<and> count_list (Object_keys (getFields qt)) ''name'' = 1
        \<and> map_of (getFields qt) ''name''
            = Some (queryFieldConfig (resolveQuery mockSourceIntegration)
                (mapped ''name'' ''userAge''))
        \<and> count_list (Object_keys (getFields mt)) ''fullName'' = 1
        \<and> map_of (getFields mt) ''fullName''
            = Some (mutationFieldConfig (resolveMutation mockTargetIntegration)
                (mapped ''age'' ''fullName'')))"
proof -
  have m: "mapped ''name'' ''fullName'' \<in> set duplicateFields"
    by (simp add: duplicateFields_def)
  have l1: "last (filter (\<lambda>g. key (sourceField g) = ''name'') duplicateFields)
      = mapped ''name'' ''userAge''"
    by (simp add: duplicateFields_def mapped_def)
  have l2: "last (filter (\<lambda>g. key (targetField g) = ''fullName'') duplicateFields)
      = mapped ''age'' ''fullName''"
    by (simp add: duplicateFields_def mapped_def)
  have k: "key (sourceField (mapped ''name'' ''fullName'')) = ''name''"
    "key (targetField (mapped ''name'' ''fullName'')) = ''fullName''"
    by (simp_all add: mapped_def)
  from createSchema_one_slot_per_key [OF duplicate_createSchema]
  obtain qt mt where t: "getQueryType duplicateSchema = Some qt"
    "getMutationType duplicateSchema = Some mt"
    "distinct (Object_keys (getFields qt))" "distinct (Object_keys (getFields mt))"
    and q: "\<forall>f \<in> set duplicateFields.
          count_list (Object_keys (getFields qt)) (key (sourceField f)) = 1
          \<and> map_of (getFields qt) (key (sourceField f))
              = Some (queryFieldConfig (resolveQuery mockSourceIntegration)
                  (last (filter (\<lambda>g. key (sourceField g) = key (sourceField f)) duplicateFields)))"
    and u: "\<forall>f \<in> set duplicateFields.
          count_list (Object_keys (getFields mt)) (key (targetField f)) = 1
          \<and> map_of (getFields mt) (key (targetField f))
              = Some (mutationFieldConfig (resolveMutation mockTargetIntegration)
                  (last (filter (\<lambda>g. key (targetField g) = key (targetField f)) duplicateFields)))"
    by blast
  from bspec [OF q m] have q': "count_list (Object_keys (getFields qt)) ''name'' = 1"
    "map_of (getFields qt) ''name''
       = Some (queryFieldConfig (resolveQuery mockSourceIntegration) (mapped ''name'' ''userAge''))"
    by (simp_all add: k l1)
  from bspec [OF u m] have u': "count_list (Object_keys (getFields mt)) ''fullName'' = 1"
    "map_of (getFields mt) ''fullName''
       = Some (mutationFieldConfig (resolveMutation mockTargetIntegration)
           (mapped ''age'' ''fullName''))"
    by (simp_all add: k l2)
  from t q' u' duplicate_createSchema show ?thesis by blast
qed

theorem createSchema_cardinality_witness:
  "createSchema mockMappedFields mockSourceIntegration mockTargetIntegration = Inr mockSchema
   \<and> mockMappedFields \<noteq> []
   \<and> distinct (sourceKeys mockMappedFields) \<and> distinct (targetKeys mockMappedFields)
   \<and> (\<exists>qt mt. getQueryType mockSchema = Some qt \<and> getMutationType mockSchema = Some mt
        \<and> length (Object_keys (getFields qt)) = length (Object_keys (getFields mt))
        \<and> length (Object_keys (getFields qt)) = length mockMappedFields
        \<and> length (Object_keys (getFields mt)) = length mockMappedFields)"
proof -
  have a: "mockMappedFields \<noteq> []" by (simp add: mockMappedFields_def)
  have b: "distinct (sourceKeys mockMappedFields)" by (simp add: mockMappedFields_def)
  have c: "distinct (targetKeys mockMappedFields)" by (simp add: mockMappedFields_def)
  from createSchema_cardinality [OF mock_createSchema a b c] mock_createSchema a b c
  show ?thesis by blast
qed

theorem createQueryString_text_witness:
  "createSchema mockMappedFields mockSourceIntegration mockTargetIntegration = Inr mockSchema
   \<and> distinct (sourceKeys mockMappedFields)
   \<and> createQueryString mockSchema = Inr ''query{name age}''
   \<and> getQueryType \<lparr>getQueryType = None, getMutationType = None\<rparr> = None
   \<and> createQueryString \<lparr>getQueryType = None, getMutationType = None\<rparr>
       = Inl (Error ''Schema has no query type defined'')"
proof -
  have b: "distinct (sourceKeys mockMappedFields)" by (simp add: mockMappedFields_def)
  have c: "sourceKeys mockMappedFields = [''name'', ''age'']"
    by (simp add: mockMappedFields_def)
  note t = createQueryString_text [of mockMappedFields mockSourceIntegration
      mockTargetIntegration mockSchema "\<lparr>getQueryType = None, getMutationType = None\<rparr>"]
  from t mock_createSchema b
  have "createQueryString mockSchema
      = Inr (''query{'' @ join '' '' (sourceKeys mockMappedFields) @ ''}'')"
    by blast
  then have d: "createQueryString mockSchema = Inr ''query{name age}''"
    unfolding c by simp
  from t have e: "createQueryString \<lparr>getQueryType = None, getMutationType = None\<rparr>
       = Inl (Error ''Schema has no query type defined'')"
    by simp
  from mock_createSchema b d e show ?thesis by simp
qed

text \<open>
  C6. A process whose mapping list has a duplicate source key or a duplicate target key
  is rejected by \<^verbatim>\<open>validateProcess\<close>, whatever its other parts are. A key shared
  between the source side and the target side is no obstacle: a non-empty list with
  pairwise distinct source keys and pairwise distinct target keys, with its built schema
  and two integrations that have their resolvers, is accepted.
\<close>

theorem validateProcess_rejects_duplicates:
  "(options p = Some opts \<and> fields' opts = Some fs
      \<and> (\<not> distinct (sourceKeys fs) \<or> \<not> distinct (targetKeys fs)) \<longrightarrow>
      \<not> validateProcess (Some p))
   \<and> (gs \<noteq> [] \<and> distinct (sourceKeys gs) \<and> distinct (targetKeys gs)
        \<and> createSchema gs src tgt = Inr sch
        \<and> resolveQuery src \<noteq> None \<and> resolveMutation tgt \<noteq> None \<longrightarrow>
        validateProcess (Some \<lparr>options = Some \<lparr>fields' = Some gs, sourceIntegration = Some src,
          targetIntegration = Some tgt\<rparr>, schema = Some sch\<rparr>))"
proof -
  have "validateProcess (Some \<lparr>options = Some \<lparr>fields' = Some gs, sourceIntegration = Some src,
          targetIntegration = Some tgt\<rparr>, schema = Some sch\<rparr>)"
    if h: "gs \<noteq> []" "distinct (sourceKeys gs)" "distinct (targetKeys gs)"
      "createSchema gs src tgt = Inr sch"
      "resolveQuery src \<noteq> None" "resolveMutation tgt \<noteq> None"
  proof -
    from createSchema_distinct_keys [OF h(4) h(2) h(3)] h
    show ?thesis by (auto simp: validateProcess_iff)
  qed
  then show ?thesis using validateProcess_duplicates [of p opts fs] by blast
qed

theorem validateProcess_rejects_duplicates_witness:
  "options \<lparr>options = Some (mockOptions\<lparr>fields' := Some duplicateFields\<rparr>),
            schema = Some duplicateSchema\<rparr>
     = Some (mockOptions\<lparr>fields' := Some duplicateFields\<rparr>)
   \<and> fields' (mockOptions\<lparr>fields' := Some duplicateFields\<rparr>) = Some duplicateFields
   \<and> \<not> distinct (sourceKeys duplicateFields)
   \<and> \<not> validateProcess (Some \<lparr>options = Some (mockOptions\<lparr>fields' := Some duplicateFields\<rparr>),
            schema = Some duplicateSchema\<rparr>)
   \<and> sharedKeyFields \<noteq> []
   \<and> set (sourceKeys sharedKeyFields) \<inter> set (targetKeys sharedKeyFields) = {''id''}
   \<and> (\<exists>sch. createSchema sharedKeyFields mockSourceIntegration mockTargetIntegration = Inr sch
        \<and> validateProcess (Some \<lparr>options = Some \<lparr>fields' = Some sharedKeyFields,
             sourceIntegration = Some mockSourceIntegration,
             targetIntegration = Some mockTargetIntegration\<rparr>, schema = Some sch\<rparr>))"
proof -
  let ?opts = "mockOptions\<lparr>fields' := Some duplicateFields\<rparr>"
  let ?p = "\<lparr>options = Some ?opts, schema = Some duplicateSchema\<rparr>"
  have a: "options ?p = Some ?opts" "fields' ?opts = Some duplicateFields" by simp_all
  have b: "\<not> distinct (sourceKeys duplicateFields)"
    by (simp add: duplicateFields_def mapped_def)
  have c: "sharedKeyFields \<noteq> []" "distinct (sourceKeys sharedKeyFields)"
    "distinct (targetKeys sharedKeyFields)"
    "set (sourceKeys sharedKeyFields) \<inter> set (targetKeys sharedKeyFields) = {''id''}"
    by (simp_all add: sharedKeyFields_def mapped_def)
  have "assertName ''id''"
    by (simp add: isNameStart_def isNameContinue_def isDigit_def)
  then obtain sch where
    d: "createSchema sharedKeyFields mockSourceIntegration mockTargetIntegration = Inr sch"
    by (simp add: createSchema_def new_GraphQLSchema_def validFieldNames_def Object_keys_def
        createQuerySchema_def createMutationSchema_def sharedKeyFields_def spread_def mapped_def
        del: assertName.simps)
  have e: "resolveQuery mockSourceIntegration \<noteq> None"
    "resolveMutation mockTargetIntegration \<noteq> None"
    by (simp_all add: mockSourceIntegration_def mockTargetIntegration_def)
  note t = validateProcess_rejects_duplicates [of ?p ?opts duplicateFields sharedKeyFields
      mockSourceIntegration mockTargetIntegration sch]
  from t a b have 1: "\<not> validateProcess (Some ?p)" by blast
  from t c d e have 2: "validateProcess (Some \<lparr>options = Some \<lparr>fields' = Some sharedKeyFields,
             sourceIntegration = Some mockSourceIntegration,
             targetIntegration = Some mockTargetIntegration\<rparr>, schema = Some sch\<rparr>)"
    by blast
  from a b c 1 2 d show ?thesis by blast
qed

lemma mock_mutation_keys:
  "Object_keys (getFields (createMutationSchema mockMappedFields r)) = [''fullName'', ''userAge'']"
  by (simp add: mock_mutation_fields Object_keys_def)

lemma mock_getMutationType:
  "getMutationType mockSchema
     = Some (createMutationSchema mockMappedFields (resolveMutation mockTargetIntegration))"
  by (simp add: mockSchema_def)

lemma mock_pairs:
  "findQueryFieldName mockMappedFields ''fullName'' = Some ''name''"
  "findQueryFieldName mockMappedFields ''userAge'' = Some ''age''"
  by (simp_all add: findQueryFieldName_def mockMappedFields_def)





text \<open>
  A paired source key that the query results do not hold but inherit, such as
  \<^verbatim>\<open>toString\<close> on an object literal, reads as the inherited member, and the text of
  that function is written as the value.
\<close>

lemma createMutationString_inherited_member:
  "findQueryFieldName inheritedKeyFields ''fullName'' = Some ''toString''
   \<and> ownProperties missingAgeResults ''toString'' = None
   \<and> createMutationString mockSchema inheritedKeyFields missingAgeResults
       = Inr (''mutation{fullName(resolvedQuery:'' @ [dquote]
           @ ''function toString() { [native code] }'' @ [dquote]
           @ '') userAge(resolvedQuery:'' @ [dquote] @ ''undefined'' @ [dquote] @ '')}'')"
  by (simp add: createMutationString_def mock_getMutationType mock_mutation_keys
      mutationFragment_def propertyText_def findQueryFieldName_def inheritedKeyFields_def
      mapped_def missingAgeResults_def plainObject_def objectPrototype_def nativeCode_def)





section \<open>Resolution and orchestration\<close>

lemma join_Cons: "join sep (x # xs) = (if xs = [] then x else x @ sep @ join sep xs)"
  by (cases xs) simp_all

lemma startToken_nameStart: "isNameStart c \<Longrightarrow> startToken ts c = InName ts [c]"
  unfolding isNameStart_def startToken_def isIgnored_def
  by auto

lemma lex_name_continue:
  "list_all isNameContinue n \<Longrightarrow> foldl lexStep (InName ts acc) n = InName ts (acc @ n)"
  by (induction n arbitrary: acc) simp_all

lemma lex_name: "assertName n \<Longrightarrow> foldl lexStep (Between ts) n = InName ts n"
  by (cases n) (simp_all add: startToken_nameStart lex_name_continue)

lemma lex_after_name:
  "lexStep (InName ts n) CHR '' '' = Between (ts @ [NAME n])"
  "lexStep (InName ts n) CHR ''}'' = Between (ts @ [NAME n, BRACE_R])"
  "lexStep (InName ts n) CHR ''('' = Between (ts @ [NAME n, PAREN_L])"
  "lexStep (InName ts n) CHR '':'' = Between (ts @ [NAME n, COLON])"
  by (simp_all add: isNameContinue_def isNameStart_def isDigit_def startToken_def isIgnored_def)

lemma lex_string_body:
  "list_all isPlain v \<Longrightarrow> foldl lexStep (InString ts acc) v = InString ts (acc @ v)"
  by (induction v arbitrary: acc) (simp_all add: isPlain_def)

lemma lex_names:
  "names \<noteq> [] \<Longrightarrow> list_all assertName names \<Longrightarrow>
     foldl lexStep (Between ts) (join '' '' names @ ''}'')
       = Between (ts @ map NAME names @ [BRACE_R])"
proof (induction names arbitrary: ts)
  case Nil
  then show ?case by simp
next
  case (Cons n ns)
  show ?case
  proof (cases "ns = []")
    case True
    with Cons.prems show ?thesis
      by (simp add: lex_name lex_after_name del: assertName.simps lexStep.simps(2))
  next
    case False
    with Cons.prems Cons.IH [of "ts @ [NAME n]"] show ?thesis
      by (simp add: join_Cons lex_name lex_after_name del: assertName.simps lexStep.simps(2))
  qed
qed

lemma lex_keyword_query: "foldl lexStep (Between []) ''query{'' = Between [NAME ''query'', BRACE_L]"
  by (simp add: startToken_def isIgnored_def isNameStart_def isNameContinue_def isDigit_def)

lemma lex_keyword_mutation:
  "foldl lexStep (Between []) ''mutation{'' = Between [NAME ''mutation'', BRACE_L]"
  by (simp add: startToken_def isIgnored_def isNameStart_def isNameContinue_def isDigit_def)

lemma lex_query_text:
  assumes "names \<noteq> []" and "list_all assertName names"
  shows "lex (''query{'' @ join '' '' names @ ''}'')
    = Some ([NAME ''query'', BRACE_L] @ map NAME names @ [BRACE_R])"
proof -
  have "foldl lexStep (Between []) (''query{'' @ (join '' '' names @ ''}''))
      = foldl lexStep (Between [NAME ''query'', BRACE_L]) (join '' '' names @ ''}'')"
    unfolding foldl_append lex_keyword_query ..
  with lex_names [OF assms] show ?thesis by (simp add: lex_def)
qed

lemma assertName_resolvedQuery: "assertName ''resolvedQuery''"
  by (simp add: isNameStart_def isNameContinue_def isDigit_def)

lemma lex_fragment:
  assumes "assertName m" and "list_all isPlain v"
  shows "foldl lexStep (Between ts) (spec_fragment m v) = Between (ts @ fragmentTokens m v)"
proof -
  have "foldl lexStep (Between ts) (m @ ''('') = Between (ts @ [NAME m, PAREN_L])"
    using assms(1) by (simp add: lex_name lex_after_name del: assertName.simps lexStep.simps(2))
  moreover have "foldl lexStep (Between ts') (''resolvedQuery:'' @ [dquote])
      = InString (ts' @ [NAME ''resolvedQuery'', COLON]) []" for ts'
  proof -
    have "foldl lexStep (Between ts') (''resolvedQuery'' @ '':'' @ [dquote])
      = InString (ts' @ [NAME ''resolvedQuery'', COLON]) []"
      unfolding foldl_append lex_name [OF assertName_resolvedQuery]
      by (simp add: lex_after_name startToken_def isIgnored_def isNameStart_def dquote_def del: lexStep.simps(2))
    then show ?thesis by simp
  qed
  moreover have "foldl lexStep (InString ts' []) (v @ [dquote] @ '')'')
      = Between (ts' @ [STRING v, PAREN_R])" for ts'
    using assms(2) by (simp add: lex_string_body startToken_def isIgnored_def dquote_def)
  ultimately have "foldl lexStep (Between ts)
      ((m @ ''('') @ (''resolvedQuery:'' @ [dquote]) @ (v @ [dquote] @ '')''))
      = Between (ts @ fragmentTokens m v)"
    unfolding foldl_append by (simp add: fragmentTokens_def)
  then show ?thesis by (simp add: spec_fragment_def)
qed

lemma lex_fragments:
  "xs \<noteq> [] \<Longrightarrow> (\<And>x ts. x \<in> set xs \<Longrightarrow> foldl lexStep (Between ts) (g x) = Between (ts @ h x)) \<Longrightarrow>
     foldl lexStep (Between ts) (join '' '' (map g xs) @ ''}'')
       = Between (ts @ concat (map h xs) @ [BRACE_R])"
proof (induction xs arbitrary: ts)
  case Nil
  then show ?case by simp
next
  case (Cons x xs)
  have x: "foldl lexStep (Between ts) (g x) = Between (ts @ h x)"
    using Cons.prems(2) by simp
  show ?case
  proof (cases "xs = []")
    case True
    with x show ?thesis
      by (simp add: startToken_def isIgnored_def)
  next
    case False
    have "foldl lexStep (Between (ts @ h x)) (join '' '' (map g xs) @ ''}'')
       = Between ((ts @ h x) @ concat (map h xs) @ [BRACE_R])"
      using Cons.IH [OF False] Cons.prems(2) by simp
    with False x show ?thesis
      by (simp add: join_Cons startToken_def isIgnored_def)
  qed
qed

lemma lex_mutation_text:
  assumes "xs \<noteq> []"
    and "\<And>x. x \<in> set xs \<Longrightarrow> assertName (m x) \<and> list_all isPlain (v x)"
  shows "lex (''mutation{'' @ join '' '' (map (\<lambda>x. spec_fragment (m x) (v x)) xs) @ ''}'')
    = Some ([NAME ''mutation'', BRACE_L] @ concat (map (\<lambda>x. fragmentTokens (m x) (v x)) xs)
        @ [BRACE_R])"
proof -
  have "foldl lexStep (Between ts) (join '' '' (map (\<lambda>x. spec_fragment (m x) (v x)) xs) @ ''}'')
       = Between (ts @ concat (map (\<lambda>x. fragmentTokens (m x) (v x)) xs) @ [BRACE_R])" for ts
    using assms by (intro lex_fragments) (simp_all add: lex_fragment)
  then have "foldl lexStep (Between [])
      (''mutation{'' @ (join '' '' (map (\<lambda>x. spec_fragment (m x) (v x)) xs) @ ''}''))
      = Between ([NAME ''mutation'', BRACE_L]
          @ concat (map (\<lambda>x. fragmentTokens (m x) (v x)) xs) @ [BRACE_R])"
    unfolding foldl_append lex_keyword_mutation by simp
  then show ?thesis by (simp add: lex_def)
qed

lemma parse_names:
  "foldl parseStep (AfterField op sels n) (map NAME ns @ [BRACE_R])
     = Finished op (sels @ map (\<lambda>n. (n, [])) (n # ns))"
  by (induction ns arbitrary: sels n) simp_all

lemma parse_query_tokens:
  "names \<noteq> [] \<Longrightarrow>
     foldl parseStep Start ([NAME ''query'', BRACE_L] @ map NAME names @ [BRACE_R])
       = Finished QUERY (map (\<lambda>n. (n, [])) names)"
  using parse_names [of QUERY "[]"] by (cases names) simp_all

lemma parse_fragments:
  "foldl parseStep (InSelectionSet op sels) (concat (map (\<lambda>x. fragmentTokens (m x) (v x)) xs))
     = InSelectionSet op (sels @ map (\<lambda>x. (m x, [(''resolvedQuery'', v x)])) xs)"
  by (induction xs arbitrary: sels) (simp_all add: fragmentTokens_def)

lemma parse_mutation_tokens:
  "xs \<noteq> [] \<Longrightarrow>
     foldl parseStep Start ([NAME ''mutation'', BRACE_L]
        @ concat (map (\<lambda>x. fragmentTokens (m x) (v x)) xs) @ [BRACE_R])
       = Finished MUTATION (map (\<lambda>x. (m x, [(''resolvedQuery'', v x)])) xs)"
  by (simp add: parse_fragments)

lemma parse_query_text:
  assumes "names \<noteq> []" and "list_all assertName names"
  shows "parse (''query{'' @ join '' '' names @ ''}'') = Some (QUERY, map (\<lambda>n. (n, [])) names)"
  unfolding parse_def lex_query_text [OF assms]
  by (simp only: option.case parse_query_tokens [OF assms(1)] parseEnd.simps)

lemma parse_mutation_text:
  assumes "xs \<noteq> []"
    and "\<And>x. x \<in> set xs \<Longrightarrow> assertName (m x) \<and> list_all isPlain (v x)"
  shows "parse (''mutation{'' @ join '' '' (map (\<lambda>x. spec_fragment (m x) (v x)) xs) @ ''}'')
    = Some (MUTATION, map (\<lambda>x. (m x, [(''resolvedQuery'', v x)])) xs)"
proof -
  have "lex (''mutation{'' @ join '' '' (map (\<lambda>x. spec_fragment (m x) (v x)) xs) @ ''}'')
    = Some ([NAME ''mutation'', BRACE_L] @ concat (map (\<lambda>x. fragmentTokens (m x) (v x)) xs)
        @ [BRACE_R])"
    using assms by (rule lex_mutation_text)
  then show ?thesis
    unfolding parse_def
    by (simp only: option.case parse_mutation_tokens [OF assms(1)] parseEnd.simps)
qed

lemma collectFields_distinct_aux:
  "distinct (map fst (acc @ sels)) \<Longrightarrow>
     foldl (\<lambda>acc sel. if fst sel \<in> set (map fst acc) then acc else acc @ [sel]) acc sels
       = acc @ sels"
proof (induction sels arbitrary: acc)
  case Nil
  then show ?case by simp
next
  case (Cons a sels)
  from Cons.prems have "fst a \<notin> set (map fst acc)" by auto
  moreover from Cons.prems have "distinct (map fst ((acc @ [a]) @ sels))" by simp
  ultimately show ?case using Cons.IH [of "acc @ [a]"] by simp
qed

lemma collectFields_distinct: "distinct (map fst sels) \<Longrightarrow> collectFields sels = sels"
  using collectFields_distinct_aux [of "[]" sels] by (simp add: collectFields_def)

lemma update_append: "k \<notin> fst ` set al \<Longrightarrow> AList.update k v al = al @ [(k, v)]"
  by (induction al) auto

lemma reduce_spread_distinct:
  "distinct (map kf fs) \<Longrightarrow>
     foldl spread [] (map (\<lambda>f. [(kf f, vf f)]) fs) = map (\<lambda>f. (kf f, vf f)) fs"
proof (induction fs rule: rev_induct)
  case Nil
  then show ?case by simp
next
  case (snoc x xs)
  then have "kf x \<notin> fst ` set (map (\<lambda>f. (kf f, vf f)) xs)" by force
  with snoc show ?case
    by (simp add: spread_single update_append)
qed

lemma map_of_distinct_fields:
  "distinct (map kf fs) \<Longrightarrow> f \<in> set fs \<Longrightarrow>
     map_of (map (\<lambda>f. (kf f, vf f)) fs) (kf f) = Some (vf f)"
  by (induction fs) (auto simp: rev_image_eqI)

lemma built_query_fields:
  "distinct (sourceKeys fs) \<Longrightarrow>
     getFields (createQuerySchema fs r) = map (\<lambda>f. (key (sourceField f), queryFieldConfig r f)) fs"
  by (simp add: createQuerySchema_def reduce_spread_distinct)

lemma built_mutation_fields:
  "distinct (targetKeys fs) \<Longrightarrow>
     getFields (createMutationSchema fs r)
       = map (\<lambda>f. (key (targetField f), mutationFieldConfig r f)) fs"
  by (simp add: createMutationSchema_def reduce_spread_distinct)

lemma createSchema_names:
  assumes "createSchema fs src tgt = Inr sch"
    and "distinct (sourceKeys fs)" and "distinct (targetKeys fs)"
  shows "list_all assertName (sourceKeys fs)" and "list_all assertName (targetKeys fs)"
  using assms
  by (auto simp: createSchema_def new_GraphQLSchema_def validFieldNames_def Object_keys_def
      built_query_fields built_mutation_fields comp_def list_all_iff split: if_splits)

lemma built_validateSchema:
  assumes "createSchema fs src tgt = Inr sch"
    and "fs \<noteq> []" and "distinct (sourceKeys fs)" and "distinct (targetKeys fs)"
    and "noReservedKeys fs"
  shows "validateSchema sch"
proof -
  from createSchema_Inr [OF assms(1)]
  have t: "getQueryType sch = Some (createQuerySchema fs (resolveQuery src))"
    "getMutationType sch = Some (createMutationSchema fs (resolveMutation tgt))"
    by simp_all
  from createSchema_names [OF assms(1,3,4)] assms(2,5) show ?thesis
    by (simp add: validateSchema_def t validateType_def Object_keys_def
        built_query_fields [OF assms(3)] built_mutation_fields [OF assms(4)]
        comp_def list_all_iff noReservedKeys_def del: assertName.simps)
qed

lemma distinct_fst_eq:
  "distinct (map fst sels) \<Longrightarrow> a \<in> set sels \<Longrightarrow> b \<in> set sels \<Longrightarrow> fst a = fst b \<Longrightarrow> a = b"
  by (metis distinct_map inj_onD)

lemma validate_query_selections:
  assumes "distinct (sourceKeys fs)"
  shows "validate (createQuerySchema fs r) (map (\<lambda>n. (n, [])) (sourceKeys fs))"
  unfolding validate_def validSelection_def list_all_iff
  using assms
  by (auto simp: built_query_fields map_of_distinct_fields
      [of "\<lambda>f. key (sourceField f)" fs _ "queryFieldConfig r"])

lemma validate_mutation_selections:
  assumes "distinct (targetKeys fs)"
  shows "validate (createMutationSchema fs r)
    (map (\<lambda>f. (key (targetField f), [(''resolvedQuery'', v f)])) fs)"
proof -
  let ?sels = "map (\<lambda>f. (key (targetField f), [(''resolvedQuery'', v f)])) fs"
  have d: "distinct (map fst ?sels)" using assms by (simp add: comp_def)
  have "validSelection (createMutationSchema fs r) ?sels
      (key (targetField f), [(''resolvedQuery'', v f)])" if f: "f \<in> set fs" for f
  proof -
    have m: "map_of (getFields (createMutationSchema fs r)) (key (targetField f))
        = Some (mutationFieldConfig r f)"
      using assms f
      by (simp add: built_mutation_fields map_of_distinct_fields
          [of "\<lambda>f. key (targetField f)" fs f "mutationFieldConfig r"])
    have c: "snd other = [(''resolvedQuery'', v f)]"
      if "other \<in> set ?sels" "fst other = key (targetField f)" for other
    proof -
      have "(key (targetField f), [(''resolvedQuery'', v f)]) \<in> set ?sels"
        using f by force
      with distinct_fst_eq [OF d that(1) this] that(2) show ?thesis by auto
    qed
    show ?thesis
      unfolding validSelection_def list_all_iff
      using c by (simp add: m mutationFieldConfig_def)
  qed
  then show ?thesis
    unfolding validate_def list_all_iff by auto
qed

lemma execute_distinct:
  assumes "distinct (map fst sels)"
  shows "execute t sels
    = \<lparr>errors = concat (map (\<lambda>sel. case executeField t sel of Inl e \<Rightarrow> [e] | Inr v \<Rightarrow> []) sels),
       data = Some (map (\<lambda>sel. (fst sel, case executeField t sel of Inl e \<Rightarrow> VNull | Inr v \<Rightarrow> v))
          sels)\<rparr>"
  by (simp add: execute_def collectFields_distinct [OF assms] comp_def)

lemma execute_all_fulfilled:
  assumes "distinct (map fst (map s xs))"
    and "\<And>x. x \<in> set xs \<Longrightarrow> executeField t (s x) = Inr (r x)"
  shows "execute t (map s xs)
    = \<lparr>errors = [], data = Some (map (\<lambda>x. (fst (s x), r x)) xs)\<rparr>"
proof -
  have "concat (map (\<lambda>sel. case executeField t sel of Inl e \<Rightarrow> [e] | Inr v \<Rightarrow> []) (map s xs))
      = []"
    using assms(2) by (induction xs) simp_all
  moreover have "map (\<lambda>sel. (fst sel, case executeField t sel of Inl e \<Rightarrow> VNull | Inr v \<Rightarrow> v))
      (map s xs) = map (\<lambda>x. (fst (s x), r x)) xs"
    using assms(2) by (induction xs) simp_all
  ultimately show ?thesis by (simp add: execute_distinct [OF assms(1)])
qed

lemma execute_some_rejected:
  assumes "distinct (map fst sels)"
    and "sel \<in> set sels" and "executeField t sel = Inl e"
  shows "errors (execute t sels) \<noteq> []"
  using assms(2,3) by (auto simp: execute_distinct [OF assms(1)] intro!: bexI [of _ sel])

lemma mapE_map_Inr:
  "(\<And>x. x \<in> set xs \<Longrightarrow> g (t x) = Inr (h x)) \<Longrightarrow> mapE g (map t xs) = Inr (map h xs)"
  by (induction xs) auto

lemma find_by_target:
  "distinct (targetKeys fs) \<Longrightarrow> f \<in> set fs \<Longrightarrow>
     findQueryFieldName fs (key (targetField f)) = Some (key (sourceField f))"
  unfolding findQueryFieldName_def
  by (induction fs) (auto simp: rev_image_eqI)

lemma assertName_nonempty: "assertName n \<Longrightarrow> n \<noteq> []"
  by (cases n) simp_all

lemma built_query_string:
  assumes "createSchema fs src tgt = Inr sch" and "distinct (sourceKeys fs)"
  shows "createQueryString sch = Inr (''query{'' @ join '' '' (sourceKeys fs) @ ''}'')"
  using createSchema_Inr [OF assms(1)] assms(2)
  by (simp add: createQueryString_def query_keys distinct_remdups_id)

lemma built_query_execution:
  assumes "createSchema fs src tgt = Inr sch"
    and "fs \<noteq> []" and "distinct (sourceKeys fs)" and "distinct (targetKeys fs)"
    and "noReservedKeys fs"
  shows "graphql sch (''query{'' @ join '' '' (sourceKeys fs) @ ''}'')
    = execute (createQuerySchema fs (resolveQuery src))
        (map (\<lambda>f. (key (sourceField f), [])) fs)"
proof -
  have p: "parse (''query{'' @ join '' '' (sourceKeys fs) @ ''}'')
      = Some (QUERY, map (\<lambda>n. (n, [])) (sourceKeys fs))"
    using assms(2) createSchema_names(1) [OF assms(1,3,4)] by (intro parse_query_text) simp_all
  have r: "rootType sch QUERY = Some (createQuerySchema fs (resolveQuery src))"
    using createSchema_Inr [OF assms(1)] by (simp add: rootType_def)
  show ?thesis
    unfolding graphql_def p
    using built_validateSchema [OF assms] validate_query_selections [OF assms(3)]
    by (simp add: r comp_def)
qed

lemma query_executeField:
  assumes "distinct (sourceKeys fs)" and "f \<in> set fs"
  shows "executeField (createQuerySchema fs (Some rq)) (key (sourceField f), as)
    = (case rq (key (sourceField f)) of Inl e \<Rightarrow> Inl GraphQLError | Inr v \<Rightarrow> Inr (serialize v))"
proof -
  have "map_of (getFields (createQuerySchema fs (Some rq))) (key (sourceField f))
      = Some (queryFieldConfig (Some rq) f)"
    using assms
    by (simp add: built_query_fields
        map_of_distinct_fields [of "\<lambda>f. key (sourceField f)" fs f "queryFieldConfig (Some rq)"])
  then show ?thesis
    by (simp add: executeField_def queryFieldConfig_def)
qed

lemma mutation_executeField:
  assumes "distinct (targetKeys fs)" and "f \<in> set fs"
  shows "executeField (createMutationSchema fs (Some rm))
      (key (targetField f), [(''resolvedQuery'', v)])
    = (case rm (key (targetField f)) (VString v) of
         Inl e \<Rightarrow> Inl GraphQLError
       | Inr x \<Rightarrow> Inr (serialize x))"
proof -
  have "map_of (getFields (createMutationSchema fs (Some rm))) (key (targetField f))
      = Some (mutationFieldConfig (Some rm) f)"
    using assms
    by (simp add: built_mutation_fields
        map_of_distinct_fields [of "\<lambda>f. key (targetField f)" fs f "mutationFieldConfig (Some rm)"])
  then show ?thesis
    by (simp add: executeField_def mutationFieldConfig_def argumentValues_def)
qed

lemma built_mutation_string:
  assumes "createSchema fs src tgt = Inr sch"
    and "distinct (sourceKeys fs)" and "distinct (targetKeys fs)"
  shows "createMutationString sch fs (dataObject (map (\<lambda>f. (key (sourceField f), VString (qv f))) fs))
    = Inr (''mutation{'' @ join '' '' (map (\<lambda>f. spec_fragment (key (targetField f)) (qv f)) fs)
        @ ''}'')"
proof -
  let ?qr = "dataObject (map (\<lambda>f. (key (sourceField f), VString (qv f))) fs)"
  have "mutationFragment fs ?qr (key (targetField f))
      = Inr (spec_fragment (key (targetField f)) (qv f))" if f: "f \<in> set fs" for f
  proof -
    have "assertName (key (sourceField f))"
      using createSchema_names(1) [OF assms] f by (simp add: list_all_iff)
    then have n: "key (sourceField f) \<noteq> []" by (rule assertName_nonempty)
    have q: "ownProperties ?qr (key (sourceField f)) = Some (VString (qv f))"
      using map_of_distinct_fields [OF assms(2) f, of "\<lambda>f. VString (qv f)"]
      by (simp add: dataObject_def)
    from n q show ?thesis
      by (simp add: mutationFragment_def find_by_target [OF assms(3) f] spec_fragment_def
          propertyText_def)
  qed
  then have "mapE (mutationFragment fs ?qr) (targetKeys fs)
      = Inr (map (\<lambda>f. spec_fragment (key (targetField f)) (qv f)) fs)"
    by (rule mapE_map_Inr)
  with createSchema_Inr [OF assms(1)] assms(3) show ?thesis
    by (simp add: createMutationString_def mutation_keys distinct_remdups_id)
qed

lemma built_mutation_execution:
  assumes "createSchema fs src tgt = Inr sch"
    and "fs \<noteq> []" and "distinct (sourceKeys fs)" and "distinct (targetKeys fs)"
    and "noReservedKeys fs"
    and "\<And>f. f \<in> set fs \<Longrightarrow> list_all isPlain (qv f)"
  shows "graphql sch
      (''mutation{'' @ join '' '' (map (\<lambda>f. spec_fragment (key (targetField f)) (qv f)) fs) @ ''}'')
    = execute (createMutationSchema fs (resolveMutation tgt))
        (map (\<lambda>f. (key (targetField f), [(''resolvedQuery'', qv f)])) fs)"
proof -
  have "assertName (key (targetField f)) \<and> list_all isPlain (qv f)" if "f \<in> set fs" for f
    using createSchema_names(2) [OF assms(1,3,4)] that assms(6) by (simp add: list_all_iff)
  with assms(2)
  have p: "parse (''mutation{''
      @ join '' '' (map (\<lambda>f. spec_fragment (key (targetField f)) (qv f)) fs) @ ''}'')
      = Some (MUTATION, map (\<lambda>f. (key (targetField f), [(''resolvedQuery'', qv f)])) fs)"
    by (intro parse_mutation_text) simp_all
  have r: "rootType sch MUTATION = Some (createMutationSchema fs (resolveMutation tgt))"
    using createSchema_Inr [OF assms(1)] by (simp add: rootType_def)
  show ?thesis
    unfolding graphql_def p
    using built_validateSchema [OF assms(1-5)] validate_mutation_selections [OF assms(4)]
    by (simp add: r)
qed

lemma createProcess_Inr:
  assumes "createProcess \<lparr>fields' = Some fs, sourceIntegration = Some src,
      targetIntegration = Some tgt\<rparr> = Inr p"
  shows "\<exists>sch. createSchema fs src tgt = Inr sch
    \<and> p = \<lparr>options = Some \<lparr>fields' = Some fs, sourceIntegration = Some src,
          targetIntegration = Some tgt\<rparr>, schema = Some sch\<rparr>
    \<and> validateProcess (Some p)
    \<and> fs \<noteq> [] \<and> distinct (sourceKeys fs) \<and> distinct (targetKeys fs)"
proof -
  from assms obtain sch where s: "createSchema fs src tgt = Inr sch"
    and p: "p = \<lparr>options = Some \<lparr>fields' = Some fs, sourceIntegration = Some src,
          targetIntegration = Some tgt\<rparr>, schema = Some sch\<rparr>"
    and v: "validateProcess (Some p)"
    by (auto simp: createProcess_def Let_def split: sum.splits if_splits)
  from v have "fs \<noteq> [] \<and> distinct (sourceKeys fs) \<and> distinct (targetKeys fs)"
    unfolding p validateProcess_iff by simp
  with s p v show ?thesis by blast
qed

lemma resolveSource_built:
  assumes "createProcess \<lparr>fields' = Some fs, sourceIntegration = Some src,
      targetIntegration = Some tgt\<rparr> = Inr p"
    and "noReservedKeys fs"
    and "resolveQuery src = Some rq"
    and "\<And>f. f \<in> set fs \<Longrightarrow> rq (key (sourceField f)) = Inr (VString (qv f))"
  shows "resolveSource (Some p) = Inr (map (\<lambda>f. (key (sourceField f), VString (qv f))) fs)"
proof -
  from createProcess_Inr [OF assms(1)] obtain sch where
    s: "createSchema fs src tgt = Inr sch"
    and p: "p = \<lparr>options = Some \<lparr>fields' = Some fs, sourceIntegration = Some src,
          targetIntegration = Some tgt\<rparr>, schema = Some sch\<rparr>"
    and ne: "fs \<noteq> []" and ds: "distinct (sourceKeys fs)" and dt: "distinct (targetKeys fs)"
    by blast
  have "executeField (createQuerySchema fs (Some rq)) (key (sourceField f), [])
      = Inr (VString (qv f))" if "f \<in> set fs" for f
    using assms(4) [OF that] by (simp add: query_executeField [OF ds that])
  then have "execute (createQuerySchema fs (Some rq)) (map (\<lambda>f. (key (sourceField f), [])) fs)
      = \<lparr>errors = [], data = Some (map (\<lambda>f. (key (sourceField f), VString (qv f))) fs)\<rparr>"
    using ds by (intro execute_all_fulfilled [where s = "\<lambda>f. (key (sourceField f), [])",
          simplified]) (simp_all add: comp_def)
  then show ?thesis
    using built_query_execution [OF s ne ds dt assms(2)] assms(3)
    by (simp add: resolveSource_def p built_query_string [OF s ds])
qed

lemma sync_built:
  assumes "createProcess \<lparr>fields' = Some fs, sourceIntegration = Some src,
      targetIntegration = Some tgt\<rparr> = Inr p"
    and "noReservedKeys fs"
    and "resolveQuery src = Some rq" and "resolveMutation tgt = Some rm"
    and "\<And>f. f \<in> set fs \<Longrightarrow>
           rq (key (sourceField f)) = Inr (VString (qv f)) \<and> list_all isPlain (qv f)"
  shows "resolveSource (Some p) = Inr (map (\<lambda>f. (key (sourceField f), VString (qv f))) fs)"
    and "sync (Some p)
      = (case resolveTarget (Some p)
                (dataObject (map (\<lambda>f. (key (sourceField f), VString (qv f))) fs)) of
           Inl e \<Rightarrow> Inr None | Inr r \<Rightarrow> Inr r)"
    and "resolveTarget (Some p) (dataObject (map (\<lambda>f. (key (sourceField f), VString (qv f))) fs))
      = (let result = execute (createMutationSchema fs (Some rm))
              (map (\<lambda>f. (key (targetField f), [(''resolvedQuery'', qv f)])) fs)
         in if errors result \<noteq> [] then Inl (Error ''Mutation execution failed'')
            else Inr (data result))"
proof -
  from createProcess_Inr [OF assms(1)] obtain sch where
    s: "createSchema fs src tgt = Inr sch"
    and p: "p = \<lparr>options = Some \<lparr>fields' = Some fs, sourceIntegration = Some src,
          targetIntegration = Some tgt\<rparr>, schema = Some sch\<rparr>"
    and v: "validateProcess (Some p)"
    and ne: "fs \<noteq> []" and ds: "distinct (sourceKeys fs)" and dt: "distinct (targetKeys fs)"
    by blast
  have "rq (key (sourceField f)) = Inr (VString (qv f))" if "f \<in> set fs" for f
    using assms(5) [OF that] by simp
  from resolveSource_built [OF assms(1-3) this]
  show rs: "resolveSource (Some p)
      = Inr (map (\<lambda>f. (key (sourceField f), VString (qv f))) fs)" .
  from v rs show "sync (Some p)
      = (case resolveTarget (Some p)
                (dataObject (map (\<lambda>f. (key (sourceField f), VString (qv f))) fs)) of
           Inl e \<Rightarrow> Inr None | Inr r \<Rightarrow> Inr r)"
    by (simp add: sync_def)
  have "list_all isPlain (qv f)" if "f \<in> set fs" for f
    using assms(5) [OF that] by simp
  from built_mutation_execution [OF s ne ds dt assms(2) this] assms(4)
  show "resolveTarget (Some p) (dataObject (map (\<lambda>f. (key (sourceField f), VString (qv f))) fs))
      = (let result = execute (createMutationSchema fs (Some rm))
              (map (\<lambda>f. (key (targetField f), [(''resolvedQuery'', qv f)])) fs)
         in if errors result \<noteq> [] then Inl (Error ''Mutation execution failed'')
            else Inr (data result))"
    by (simp add: resolveTarget_def p built_mutation_string [OF s ds dt])
qed

lemma resolveTarget_built:
  assumes "createProcess \<lparr>fields' = Some fs, sourceIntegration = Some src,
      targetIntegration = Some tgt\<rparr> = Inr p"
    and "noReservedKeys fs"
    and "resolveQuery src = Some rq" and "resolveMutation tgt = Some rm"
    and "\<And>f. f \<in> set fs \<Longrightarrow>
           rq (key (sourceField f)) = Inr (VString (qv f)) \<and> list_all isPlain (qv f)"
    and "\<And>f. f \<in> set fs \<Longrightarrow>
           rm (key (targetField f)) (VString (qv f)) = Inr (VString (mv f))"
  shows "resolveTarget (Some p) (dataObject (map (\<lambda>f. (key (sourceField f), VString (qv f))) fs))
    = Inr (Some (map (\<lambda>f. (key (targetField f), VString (mv f))) fs))"
proof -
  from createProcess_Inr [OF assms(1)]
  have dt: "distinct (targetKeys fs)" by blast
  have "executeField (createMutationSchema fs (Some rm))
      (key (targetField f), [(''resolvedQuery'', qv f)]) = Inr (VString (mv f))"
    if "f \<in> set fs" for f
    using assms(6) [OF that] by (simp add: mutation_executeField [OF dt that])
  then have "execute (createMutationSchema fs (Some rm))
      (map (\<lambda>f. (key (targetField f), [(''resolvedQuery'', qv f)])) fs)
      = \<lparr>errors = [], data = Some (map (\<lambda>f. (key (targetField f), VString (mv f))) fs)\<rparr>"
    using dt by (intro execute_all_fulfilled [where
          s = "\<lambda>f. (key (targetField f), [(''resolvedQuery'', qv f)])", simplified])
      (simp_all add: comp_def)
  with sync_built(3) [OF assms(1-5)] show ?thesis by simp
qed

text \<open>
  C1, as amended. Let a process be built by \<^verbatim>\<open>createProcess\<close> from a valid mapping list
  none of whose keys begins with two underscores, with two integrations whose resolvers
  fulfil with strings, the query values \<open>qv f\<close> being free of double quotes, backslashes
  and line breaks. Then \<^verbatim>\<open>sync\<close> returns the mapping that assigns to each target key
  the value \<^verbatim>\<open>resolveMutation(targetKey, v)\<close>, where \<open>v\<close> is the value
  \<^verbatim>\<open>resolveQuery(sourceKey)\<close> of the paired source key.
\<close>

theorem sync_maps_resolved_values:
  assumes "createProcess \<lparr>fields' = Some fs, sourceIntegration = Some src,
      targetIntegration = Some tgt\<rparr> = Inr p"
    and "noReservedKeys fs"
    and "resolveQuery src = Some rq" and "resolveMutation tgt = Some rm"
    and "\<And>f. f \<in> set fs \<Longrightarrow>
           rq (key (sourceField f)) = Inr (VString (qv f)) \<and> list_all isPlain (qv f)"
    and "\<And>f. f \<in> set fs \<Longrightarrow>
           rm (key (targetField f)) (VString (qv f)) = Inr (VString (mv f))"
  shows "sync (Some p) = Inr (Some (map (\<lambda>f. (key (targetField f), VString (mv f))) fs))"
proof -
  from sync_built(2) [OF assms(1-5)] resolveTarget_built [OF assms]
  show ?thesis by simp
qed

lemma collectFields_aux:
  "set (foldl (\<lambda>acc sel. if fst sel \<in> set (map fst acc) then acc else acc @ [sel]) acc sels)
     \<subseteq> set acc \<union> set sels
   \<and> fst ` set (foldl (\<lambda>acc sel. if fst sel \<in> set (map fst acc) then acc else acc @ [sel])
        acc sels) = fst ` (set acc \<union> set sels)"
proof (induction sels arbitrary: acc)
  case Nil
  then show ?case by simp
next
  case (Cons a sels)
  show ?case
  proof (cases "fst a \<in> set (map fst acc)")
    case True
    with Cons.IH [of acc] show ?thesis by auto
  next
    case False
    with Cons.IH [of "acc @ [a]"] show ?thesis by auto
  qed
qed

lemma collectFields_subset: "set (collectFields sels) \<subseteq> set sels"
  using collectFields_aux [of "[]" sels] by (simp add: collectFields_def)

lemma collectFields_names: "fst ` set (collectFields sels) = fst ` set sels"
  using collectFields_aux [of "[]" sels] by (simp add: collectFields_def)

lemma execute_rejected:
  assumes "sel \<in> set (collectFields sels)" and "executeField t sel = Inl e"
  shows "errors (execute t sels) \<noteq> []"
  using assms by (auto simp: execute_def Let_def intro!: bexI [of _ sel])

lemma graphql_parse_None:
  "parse source = None \<Longrightarrow> graphql sch source = \<lparr>errors = [GraphQLError], data = None\<rparr>"
  by (simp add: graphql_def)

lemma query_rejection:
  assumes "getQueryType sch = Some qt"
    and "map_of (getFields qt) n = Some cfg"
    and "resolve cfg Map.empty = Inl e"
  shows "errors (graphql sch (''query{'' @ join '' '' (Object_keys (getFields qt)) @ ''}'')) \<noteq> []"
proof (cases "validateSchema sch")
  case False
  then show ?thesis by (simp add: graphql_def)
next
  case True
  let ?names = "Object_keys (getFields qt)"
  let ?sels = "map (\<lambda>n. (n, [])) ?names"
  from True assms(1) have v: "?names \<noteq> []" "list_all assertName ?names"
    by (auto simp: validateSchema_def validateType_def Object_keys_def list_all_iff)
  have p: "parse (''query{'' @ join '' '' ?names @ ''}'') = Some (QUERY, ?sels)"
    using v by (rule parse_query_text)
  have r: "rootType sch QUERY = Some qt"
    using assms(1) by (simp add: rootType_def)
  from assms(2) have "n \<in> fst ` set ?sels"
    by (force simp: Object_keys_def dest: map_of_SomeD)
  then have "n \<in> fst ` set (collectFields ?sels)"
    by (simp only: collectFields_names)
  then obtain sel where sel: "sel \<in> set (collectFields ?sels)" "fst sel = n"
    by (auto simp only: image_iff)
  with collectFields_subset [of ?sels] have "sel = (n, [])" by auto
  with assms(2,3) have "executeField qt sel = Inl GraphQLError"
    by (simp add: executeField_def argumentValues_def)
  with sel(1) have "errors (execute qt ?sels) \<noteq> []"
    by (rule execute_rejected)
  then show ?thesis
    unfolding graphql_def p using True by (simp add: r)
qed

lemma resolveSource_rejected:
  assumes "schema p = Some sch" and "getQueryType sch = Some qt"
    and "map_of (getFields qt) n = Some cfg"
    and "resolve cfg Map.empty = Inl e"
  shows "resolveSource (Some p) = Inl (Error ''Query execution failed'')"
  using query_rejection [OF assms(2,3,4)] assms(1,2)
  by (simp add: resolveSource_def createQueryString_def Let_def)

lemma sync_cases:
  "(\<exists>r. sync process = Inr r)"
  "\<not> validateProcess process \<Longrightarrow> sync process = Inr None"
  "resolveSource process = Inl e \<Longrightarrow> sync process = Inr None"
  "resolveSource process = Inr qr \<Longrightarrow> resolveTarget process (dataObject qr) = Inl e' \<Longrightarrow>
     sync process = Inr None"
  "validateProcess process \<Longrightarrow> resolveSource process = Inr qr \<Longrightarrow>
     resolveTarget process (dataObject qr) = Inr r \<Longrightarrow> sync process = Inr r"
  by (auto simp: sync_def split: sum.splits)

lemma text_generation_errors:
  "schema p = Some sch \<Longrightarrow> createQueryString sch = Inl e \<Longrightarrow> resolveSource (Some p) = Inl e"
  "schema p = Some sch \<Longrightarrow> options p = Some opts \<Longrightarrow> fields' opts = Some fs \<Longrightarrow>
     createMutationString sch fs qr = Inl e \<Longrightarrow> resolveTarget (Some p) qr = Inl e"
  by (simp_all add: resolveSource_def resolveTarget_def)

lemma sync_mutation_rejected:
  assumes "createProcess \<lparr>fields' = Some fs, sourceIntegration = Some src,
      targetIntegration = Some tgt\<rparr> = Inr p"
    and "noReservedKeys fs"
    and "resolveQuery src = Some rq" and "resolveMutation tgt = Some rm"
    and "\<And>f. f \<in> set fs \<Longrightarrow>
           rq (key (sourceField f)) = Inr (VString (qv f)) \<and> list_all isPlain (qv f)"
    and "g \<in> set fs" and "rm (key (targetField g)) (VString (qv g)) = Inl e"
  shows "sync (Some p) = Inr None"
proof -
  from createProcess_Inr [OF assms(1)]
  have dt: "distinct (targetKeys fs)" by blast
  let ?sels = "map (\<lambda>f. (key (targetField f), [(''resolvedQuery'', qv f)])) fs"
  have "executeField (createMutationSchema fs (Some rm))
      (key (targetField g), [(''resolvedQuery'', qv g)]) = Inl GraphQLError"
    using assms(7) by (simp add: mutation_executeField [OF dt assms(6)])
  moreover have "(key (targetField g), [(''resolvedQuery'', qv g)]) \<in> set ?sels"
    using assms(6) by force
  moreover have "distinct (map fst ?sels)" using dt by (simp add: comp_def)
  ultimately have "errors (execute (createMutationSchema fs (Some rm)) ?sels) \<noteq> []"
    using execute_some_rejected by blast
  with sync_built(2,3) [OF assms(1-5)] show ?thesis by (simp add: Let_def)
qed

lemma mock_fields_facts:
  "mockMappedFields \<noteq> []" "distinct (sourceKeys mockMappedFields)"
  "distinct (targetKeys mockMappedFields)" "noReservedKeys mockMappedFields"
  by (simp_all add: mockMappedFields_def noReservedKeys_def isReserved_def)

lemma createSchema_mock_fields:
  "createSchema mockMappedFields src tgt
     = Inr \<lparr>getQueryType = Some (createQuerySchema mockMappedFields (resolveQuery src)),
         getMutationType = Some (createMutationSchema mockMappedFields (resolveMutation tgt))\<rparr>"
  by (simp add: createSchema_def new_GraphQLSchema_def validFieldNames_def
      Object_keys_def mock_query_fields mock_mutation_fields assertName_simps
      del: assertName.simps)

lemma createProcess_processOf:
  assumes "resolveQuery src \<noteq> None" and "resolveMutation tgt \<noteq> None"
  shows "createProcess \<lparr>fields' = Some mockMappedFields, sourceIntegration = Some src,
      targetIntegration = Some tgt\<rparr> = Inr (processOf src tgt)"
proof -
  have "validateProcess (Some (processOf src tgt))"
    unfolding processOf_def validateProcess_iff
    using assms mock_fields_facts
    by (simp add: Object_keys_def mock_query_fields mock_mutation_fields)
  then show ?thesis
    by (simp add: createProcess_def createSchema_mock_fields processOf_def)
qed

lemma unparsable_mutation:
  assumes "createProcess \<lparr>fields' = Some fs, sourceIntegration = Some src,
      targetIntegration = Some tgt\<rparr> = Inr p"
    and "noReservedKeys fs"
    and "resolveQuery src = Some rq"
    and "\<And>f. f \<in> set fs \<Longrightarrow> rq (key (sourceField f)) = Inr (VString (qv f))"
    and "parse (''mutation{''
        @ join '' '' (map (\<lambda>f. spec_fragment (key (targetField f)) (qv f)) fs) @ ''}'') = None"
  shows "resolveTarget (Some p) (dataObject (map (\<lambda>f. (key (sourceField f), VString (qv f))) fs))
      = Inl (Error ''Mutation execution failed'')"
    and "sync (Some p) = Inr None"
proof -
  from createProcess_Inr [OF assms(1)] obtain sch where
    s: "createSchema fs src tgt = Inr sch"
    and p: "p = \<lparr>options = Some \<lparr>fields' = Some fs, sourceIntegration = Some src,
          targetIntegration = Some tgt\<rparr>, schema = Some sch\<rparr>"
    and ds: "distinct (sourceKeys fs)" and dt: "distinct (targetKeys fs)"
    by blast
  show t: "resolveTarget (Some p)
      (dataObject (map (\<lambda>f. (key (sourceField f), VString (qv f))) fs))
      = Inl (Error ''Mutation execution failed'')"
    using graphql_parse_None [OF assms(5), of sch]
    by (simp add: resolveTarget_def p built_mutation_string [OF s ds dt])
  from resolveSource_built [OF assms(1-4)] t show "sync (Some p) = Inr None"
    by (simp add: sync_def)
qed

lemma quoted_text_unparsable:
  "parse (''mutation{'' @ join '' '' (map (\<lambda>f. spec_fragment (key (targetField f))
      (''the '' @ [dquote] @ key (sourceField f) @ [dquote])) mockMappedFields) @ ''}'') = None"
  by code_simp

lemma multiline_text_unparsable:
  "parse (''mutation{'' @ join '' '' (map (\<lambda>f. spec_fragment (key (targetField f))
      (key (sourceField f) @ '':'' @ [CHR 0x0A] @ ''second line'')) mockMappedFields) @ ''}'') = None"
  by code_simp

text \<open>
  C1 as stated fails: with a source whose values contain a double quote, a valid process
  whose resolvers all fulfil, the mutation text is not well-formed and \<^verbatim>\<open>sync\<close>
  returns \<^verbatim>\<open>null\<close>.
\<close>

theorem sync_quoted_value_counterexample:
  "createProcess \<lparr>fields' = Some mockMappedFields,
       sourceIntegration = Some quotedSourceIntegration,
       targetIntegration = Some mockTargetIntegration\<rparr>
     = Inr (processOf quotedSourceIntegration mockTargetIntegration)
   \<and> resolveSource (Some (processOf quotedSourceIntegration mockTargetIntegration))
       = Inr [(''name'', VString (''the '' @ [dquote] @ ''name'' @ [dquote])),
              (''age'', VString (''the '' @ [dquote] @ ''age'' @ [dquote]))]
   \<and> sync (Some (processOf quotedSourceIntegration mockTargetIntegration)) = Inr None"
proof -
  have r: "resolveQuery quotedSourceIntegration
      = Some (\<lambda>k. Inr (VString (''the '' @ [dquote] @ k @ [dquote])))"
    by (simp add: quotedSourceIntegration_def)
  have c: "createProcess \<lparr>fields' = Some mockMappedFields,
       sourceIntegration = Some quotedSourceIntegration,
       targetIntegration = Some mockTargetIntegration\<rparr>
     = Inr (processOf quotedSourceIntegration mockTargetIntegration)"
    by (rule createProcess_processOf)
      (simp_all add: quotedSourceIntegration_def mockTargetIntegration_def)
  have "resolveSource (Some (processOf quotedSourceIntegration mockTargetIntegration))
      = Inr (map (\<lambda>f. (key (sourceField f),
          VString (''the '' @ [dquote] @ key (sourceField f) @ [dquote]))) mockMappedFields)"
    by (rule resolveSource_built [OF c mock_fields_facts(4) r]) simp
  moreover have "sync (Some (processOf quotedSourceIntegration mockTargetIntegration)) = Inr None"
    by (rule unparsable_mutation(2) [OF c mock_fields_facts(4) r _ quoted_text_unparsable]) simp
  ultimately show ?thesis using c by (simp add: mockMappedFields_def)
qed

lemma sync_executed_rejection:
  assumes "resolveSource (Some p) = Inr qr"
    and "schema p = Some sch" and "options p = Some opts" and "fields' opts = Some fs"
    and "createMutationString sch fs (dataObject qr) = Inr mutation"
    and "parse mutation = Some (op, sels)" and "rootType sch op = Some t"
    and "sel \<in> set (collectFields sels)"
    and "map_of (getFields t) (fst sel) = Some cfg"
    and "resolve cfg (argumentValues (snd sel)) = Inl e"
  shows "sync (Some p) = Inr None"
proof -
  from assms(9,10) have "executeField t sel = Inl GraphQLError"
    by (simp add: executeField_def)
  with assms(8) have "errors (execute t sels) \<noteq> []"
    by (rule execute_rejected)
  with assms(6,7) have "errors (graphql sch mutation) \<noteq> []"
    by (simp add: graphql_def)
  with assms(2-5) have "resolveTarget (Some p) (dataObject qr)
      = Inl (Error ''Mutation execution failed'')"
    by (simp add: resolveTarget_def Let_def)
  with assms(1) show ?thesis
    by (simp add: sync_def)
qed

text \<open>
  C2, as amended. For every process, malformed ones included, and whatever the resolvers
  return, \<^verbatim>\<open>sync\<close> raises nothing. It returns \<^verbatim>\<open>null\<close> when
  \<^verbatim>\<open>validateProcess\<close> returns false, when \<^verbatim>\<open>resolveSource\<close> fails and when
  \<^verbatim>\<open>resolveTarget\<close> fails; it returns what \<^verbatim>\<open>resolveTarget\<close> returns otherwise.
  A phase fails when its text generator fails. The query phase fails when the resolver
  of a query slot rejects. The mutation phase fails, and \<^verbatim>\<open>sync\<close> returns
  \<^verbatim>\<open>null\<close>, when the resolver of a slot that the mutation text selects rejects; for a
  built process whose query values are strings free of double quotes, backslashes and
  line breaks, these are the resolver calls \<^verbatim>\<open>resolveMutation(targetKey, value)\<close>. A
  resolver call is taken to return: it fulfils or rejects.
\<close>

theorem sync_never_throws:
  "(\<exists>r. sync process = Inr r)
   \<and> (\<not> validateProcess process \<longrightarrow> sync process = Inr None)
   \<and> (resolveSource process = Inl e \<longrightarrow> sync process = Inr None)
   \<and> (resolveSource process = Inr qr \<and> resolveTarget process (dataObject qr) = Inl e
        \<longrightarrow> sync process = Inr None)
   \<and> (validateProcess process \<and> resolveSource process = Inr qr
        \<and> resolveTarget process (dataObject qr) = Inr r \<longrightarrow> sync process = Inr r)
   \<and> (schema p = Some sch \<and> createQueryString sch = Inl e \<longrightarrow> resolveSource (Some p) = Inl e)
   \<and> (schema p = Some sch \<and> options p = Some opts \<and> fields' opts = Some fs
        \<and> createMutationString sch fs results = Inl e \<longrightarrow> resolveTarget (Some p) results = Inl e)
   \<and> (schema p = Some sch \<and> getQueryType sch = Some qt \<and> map_of (getFields qt) n = Some cfg
        \<and> resolve cfg Map.empty = Inl e \<longrightarrow>
        resolveSource (Some p) = Inl (Error ''Query execution failed''))
   \<and> (resolveSource (Some p) = Inr qr \<and> schema p = Some sch \<and> options p = Some opts
        \<and> fields' opts = Some fs \<and> createMutationString sch fs (dataObject qr) = Inr mutation
        \<and> parse mutation = Some (op, sels) \<and> rootType sch op = Some t
        \<and> sel \<in> set (collectFields sels) \<and> map_of (getFields t) (fst sel) = Some cfg
        \<and> resolve cfg (argumentValues (snd sel)) = Inl e \<longrightarrow>
        sync (Some p) = Inr None)
   \<and> (createProcess \<lparr>fields' = Some gs, sourceIntegration = Some src,
          targetIntegration = Some tgt\<rparr> = Inr built
        \<and> noReservedKeys gs \<and> resolveQuery src = Some rq \<and> resolveMutation tgt = Some rm
        \<and> (\<forall>f \<in> set gs. rq (key (sourceField f)) = Inr (VString (qv f))
              \<and> list_all isPlain (qv f))
        \<and> g \<in> set gs \<and> rm (key (targetField g)) (VString (qv g)) = Inl e \<longrightarrow>
        sync (Some built) = Inr None)"
proof (intro conjI impI; (elim conjE)?)
  show "\<exists>r. sync process = Inr r"
    by (rule sync_cases(1))
  show "sync process = Inr None" if "\<not> validateProcess process"
    using that by (rule sync_cases(2))
  show "sync process = Inr None" if "resolveSource process = Inl e"
    using that by (rule sync_cases(3))
  show "sync process = Inr None"
    if "resolveSource process = Inr qr" "resolveTarget process (dataObject qr) = Inl e"
    using that by (rule sync_cases(4))
  show "sync process = Inr r"
    if "validateProcess process" "resolveSource process = Inr qr"
      "resolveTarget process (dataObject qr) = Inr r"
    using that by (rule sync_cases(5))
  show "resolveSource (Some p) = Inl e" if "schema p = Some sch" "createQueryString sch = Inl e"
    using that by (rule text_generation_errors(1))
  show "resolveTarget (Some p) results = Inl e"
    if "schema p = Some sch" "options p = Some opts" "fields' opts = Some fs"
      "createMutationString sch fs results = Inl e"
    using that by (rule text_generation_errors(2))
  show "resolveSource (Some p) = Inl (Error ''Query execution failed'')"
    if "schema p = Some sch" "getQueryType sch = Some qt" "map_of (getFields qt) n = Some cfg"
      "resolve cfg Map.empty = Inl e"
    using that by (rule resolveSource_rejected)
  show "sync (Some p) = Inr None"
    if "resolveSource (Some p) = Inr qr" "schema p = Some sch" "options p = Some opts"
      "fields' opts = Some fs" "createMutationString sch fs (dataObject qr) = Inr mutation"
      "parse mutation = Some (op, sels)" "rootType sch op = Some t"
      "sel \<in> set (collectFields sels)" "map_of (getFields t) (fst sel) = Some cfg"
      "resolve cfg (argumentValues (snd sel)) = Inl e"
    using that by (rule sync_executed_rejection)
  show "sync (Some built) = Inr None"
    if "createProcess \<lparr>fields' = Some gs, sourceIntegration = Some src,
          targetIntegration = Some tgt\<rparr> = Inr built"
      "noReservedKeys gs" "resolveQuery src = Some rq" "resolveMutation tgt = Some rm"
      "\<forall>f \<in> set gs. rq (key (sourceField f)) = Inr (VString (qv f))
              \<and> list_all isPlain (qv f)"
      "g \<in> set gs" "rm (key (targetField g)) (VString (qv g)) = Inl e"
    using that sync_mutation_rejected [of gs src tgt built rq rm qv g e] by blast
qed

lemma mock_resolvers:
  "resolveQuery mockSourceIntegration = Some (\<lambda>k. Inr (VString (''source_'' @ k @ ''_value'')))"
  "resolveMutation mockTargetIntegration
     = Some (\<lambda>k v. Inr (VString (''mutated_'' @ k @ ''_'' @ String' v)))"
  by (simp_all add: mockSourceIntegration_def mockTargetIntegration_def)

lemma mock_values_plain:
  "f \<in> set mockMappedFields \<Longrightarrow> list_all isPlain (''source_'' @ key (sourceField f) @ ''_value'')"
  by (auto simp: mockMappedFields_def isPlain_def dquote_def)

lemma mock_createProcess:
  "createProcess \<lparr>fields' = Some mockMappedFields,
       sourceIntegration = Some mockSourceIntegration,
       targetIntegration = Some mockTargetIntegration\<rparr>
     = Inr (processOf mockSourceIntegration mockTargetIntegration)"
  by (rule createProcess_processOf) (simp_all add: mock_resolvers)

text \<open>
  The scenario of the specification: \<^verbatim>\<open>sync\<close> yields
  \<^verbatim>\<open>{fullName: "mutated_fullName_source_name_value", userAge: "mutated_userAge_source_age_value"}\<close>.
\<close>

theorem sync_maps_resolved_values_witness:
  "createProcess \<lparr>fields' = Some mockMappedFields,
       sourceIntegration = Some mockSourceIntegration,
       targetIntegration = Some mockTargetIntegration\<rparr>
     = Inr (processOf mockSourceIntegration mockTargetIntegration)
   \<and> noReservedKeys mockMappedFields
   \<and> sync (Some (processOf mockSourceIntegration mockTargetIntegration))
       = Inr (Some [(''fullName'', VString ''mutated_fullName_source_name_value''),
                    (''userAge'', VString ''mutated_userAge_source_age_value'')])"
proof -
  let ?qv = "\<lambda>f. ''source_'' @ key (sourceField f) @ ''_value''"
  let ?mv = "\<lambda>f. ''mutated_'' @ key (targetField f) @ ''_'' @ ?qv f"
  have "sync (Some (processOf mockSourceIntegration mockTargetIntegration))
      = Inr (Some (map (\<lambda>f. (key (targetField f), VString (?mv f))) mockMappedFields))"
    by (rule sync_maps_resolved_values [OF mock_createProcess mock_fields_facts(4) mock_resolvers,
          of ?qv ?mv])
      (rule conjI, simp, erule mock_values_plain, simp)
  with mock_createProcess mock_fields_facts(4) show ?thesis
    by (simp add: mockMappedFields_def)
qed

lemma mock_sync_parts:
  "resolveSource (Some (processOf mockSourceIntegration mockTargetIntegration))
     = Inr [(''name'', VString ''source_name_value''), (''age'', VString ''source_age_value'')]"
  "resolveTarget (Some (processOf mockSourceIntegration mockTargetIntegration))
       (dataObject [(''name'', VString ''source_name_value''), (''age'', VString ''source_age_value'')])
     = Inr (Some [(''fullName'', VString ''mutated_fullName_source_name_value''),
                  (''userAge'', VString ''mutated_userAge_source_age_value'')])"
proof -
  let ?qv = "\<lambda>f. ''source_'' @ key (sourceField f) @ ''_value''"
  let ?mv = "\<lambda>f. ''mutated_'' @ key (targetField f) @ ''_'' @ ?qv f"
  have "resolveSource (Some (processOf mockSourceIntegration mockTargetIntegration))
      = Inr (map (\<lambda>f. (key (sourceField f), VString (?qv f))) mockMappedFields)"
    by (rule resolveSource_built [OF mock_createProcess mock_fields_facts(4) mock_resolvers(1)])
      simp
  then show "resolveSource (Some (processOf mockSourceIntegration mockTargetIntegration))
     = Inr [(''name'', VString ''source_name_value''), (''age'', VString ''source_age_value'')]"
    by (simp add: mockMappedFields_def)
  have "resolveTarget (Some (processOf mockSourceIntegration mockTargetIntegration))
      (dataObject (map (\<lambda>f. (key (sourceField f), VString (?qv f))) mockMappedFields))
      = Inr (Some (map (\<lambda>f. (key (targetField f), VString (?mv f))) mockMappedFields))"
    by (rule resolveTarget_built [OF mock_createProcess mock_fields_facts(4) mock_resolvers,
          of ?qv ?mv])
      (rule conjI, simp, erule mock_values_plain, simp)
  then show "resolveTarget (Some (processOf mockSourceIntegration mockTargetIntegration))
       (dataObject [(''name'', VString ''source_name_value''), (''age'', VString ''source_age_value'')])
     = Inr (Some [(''fullName'', VString ''mutated_fullName_source_name_value''),
                  (''userAge'', VString ''mutated_userAge_source_age_value'')])"
    by (simp add: mockMappedFields_def)
qed

lemma multiline_parts:
  "createProcess \<lparr>fields' = Some mockMappedFields,
       sourceIntegration = Some multilineSourceIntegration,
       targetIntegration = Some mockTargetIntegration\<rparr>
     = Inr (processOf multilineSourceIntegration mockTargetIntegration)"
  "resolveSource (Some (processOf multilineSourceIntegration mockTargetIntegration))
     = Inr [(''name'', VString (''name:'' @ [CHR 0x0A] @ ''second line'')),
            (''age'', VString (''age:'' @ [CHR 0x0A] @ ''second line''))]"
  "resolveTarget (Some (processOf multilineSourceIntegration mockTargetIntegration))
       (dataObject [(''name'', VString (''name:'' @ [CHR 0x0A] @ ''second line'')),
                (''age'', VString (''age:'' @ [CHR 0x0A] @ ''second line''))])
     = Inl (Error ''Mutation execution failed'')"
  "sync (Some (processOf multilineSourceIntegration mockTargetIntegration)) = Inr None"
proof -
  let ?qv = "\<lambda>f. key (sourceField f) @ '':'' @ [CHR 0x0A] @ ''second line''"
  have r: "resolveQuery multilineSourceIntegration
      = Some (\<lambda>k. Inr (VString (k @ '':'' @ [CHR 0x0A] @ ''second line'')))"
    by (simp add: multilineSourceIntegration_def)
  show c: "createProcess \<lparr>fields' = Some mockMappedFields,
       sourceIntegration = Some multilineSourceIntegration,
       targetIntegration = Some mockTargetIntegration\<rparr>
     = Inr (processOf multilineSourceIntegration mockTargetIntegration)"
    by (rule createProcess_processOf)
      (simp_all add: multilineSourceIntegration_def mockTargetIntegration_def)
  have "resolveSource (Some (processOf multilineSourceIntegration mockTargetIntegration))
      = Inr (map (\<lambda>f. (key (sourceField f), VString (?qv f))) mockMappedFields)"
    by (rule resolveSource_built [OF c mock_fields_facts(4) r]) simp
  then show "resolveSource (Some (processOf multilineSourceIntegration mockTargetIntegration))
     = Inr [(''name'', VString (''name:'' @ [CHR 0x0A] @ ''second line'')),
            (''age'', VString (''age:'' @ [CHR 0x0A] @ ''second line''))]"
    by (simp add: mockMappedFields_def)
  have "resolveTarget (Some (processOf multilineSourceIntegration mockTargetIntegration))
      (dataObject (map (\<lambda>f. (key (sourceField f), VString (?qv f))) mockMappedFields))
      = Inl (Error ''Mutation execution failed'')"
    by (rule unparsable_mutation(1) [OF c mock_fields_facts(4) r _ multiline_text_unparsable])
      simp
  then show "resolveTarget (Some (processOf multilineSourceIntegration mockTargetIntegration))
       (dataObject [(''name'', VString (''name:'' @ [CHR 0x0A] @ ''second line'')),
                (''age'', VString (''age:'' @ [CHR 0x0A] @ ''second line''))])
     = Inl (Error ''Mutation execution failed'')"
    by (simp add: mockMappedFields_def)
  show "sync (Some (processOf multilineSourceIntegration mockTargetIntegration)) = Inr None"
    by (rule unparsable_mutation(2) [OF c mock_fields_facts(4) r _ multiline_text_unparsable])
      simp
qed

text \<open>
  C2 as stated fails: here the process is valid, no resolver rejects, both texts are
  generated, and \<^verbatim>\<open>sync\<close> returns \<^verbatim>\<open>null\<close>, not a mapping: a query value holds a
  line break, and the mutation text is not well-formed.
\<close>

theorem sync_line_break_counterexample:
  "validateProcess (Some (processOf multilineSourceIntegration mockTargetIntegration))
   \<and> resolveSource (Some (processOf multilineSourceIntegration mockTargetIntegration))
       = Inr [(''name'', VString (''name:'' @ [CHR 0x0A] @ ''second line'')),
              (''age'', VString (''age:'' @ [CHR 0x0A] @ ''second line''))]
   \<and> createMutationString
        \<lparr>getQueryType = Some (createQuerySchema mockMappedFields
           (resolveQuery multilineSourceIntegration)),
         getMutationType = Some (createMutationSchema mockMappedFields
           (resolveMutation mockTargetIntegration))\<rparr>
        mockMappedFields
        (dataObject [(''name'', VString (''name:'' @ [CHR 0x0A] @ ''second line'')),
                 (''age'', VString (''age:'' @ [CHR 0x0A] @ ''second line''))])
       = Inr (''mutation{fullName(resolvedQuery:'' @ [dquote] @ ''name:'' @ [CHR 0x0A]
           @ ''second line'' @ [dquote] @ '') userAge(resolvedQuery:'' @ [dquote] @ ''age:''
           @ [CHR 0x0A] @ ''second line'' @ [dquote] @ '')}'')
   \<and> sync (Some (processOf multilineSourceIntegration mockTargetIntegration)) = Inr None"
proof -
  have v: "validateProcess (Some (processOf multilineSourceIntegration mockTargetIntegration))"
    using createProcess_Inr [OF multiline_parts(1)] by blast
  have m: "createMutationString
        \<lparr>getQueryType = Some (createQuerySchema mockMappedFields
           (resolveQuery multilineSourceIntegration)),
         getMutationType = Some (createMutationSchema mockMappedFields
           (resolveMutation mockTargetIntegration))\<rparr>
        mockMappedFields
        (dataObject [(''name'', VString (''name:'' @ [CHR 0x0A] @ ''second line'')),
                 (''age'', VString (''age:'' @ [CHR 0x0A] @ ''second line''))])
       = Inr (''mutation{fullName(resolvedQuery:'' @ [dquote] @ ''name:'' @ [CHR 0x0A]
           @ ''second line'' @ [dquote] @ '') userAge(resolvedQuery:'' @ [dquote] @ ''age:''
           @ [CHR 0x0A] @ ''second line'' @ [dquote] @ '')}'')"
    by (simp add: createMutationString_def mock_mutation_keys mutationFragment_def mock_pairs
        propertyText_dataObject)
  from v m multiline_parts(2,4) show ?thesis by simp
qed

lemma quoted_parts:
  "createProcess \<lparr>fields' = Some mockMappedFields,
       sourceIntegration = Some quotedSourceIntegration,
       targetIntegration = Some mockTargetIntegration\<rparr>
     = Inr (processOf quotedSourceIntegration mockTargetIntegration)"
  "resolveSource (Some (processOf quotedSourceIntegration mockTargetIntegration))
     = Inr (map (\<lambda>f. (key (sourceField f),
         VString (''the '' @ [dquote] @ key (sourceField f) @ [dquote]))) mockMappedFields)"
  "resolveTarget (Some (processOf quotedSourceIntegration mockTargetIntegration))
       (dataObject (map (\<lambda>f. (key (sourceField f),
         VString (''the '' @ [dquote] @ key (sourceField f) @ [dquote]))) mockMappedFields))
     = Inl (Error ''Mutation execution failed'')"
proof -
  have r: "resolveQuery quotedSourceIntegration
      = Some (\<lambda>k. Inr (VString (''the '' @ [dquote] @ k @ [dquote])))"
    by (simp add: quotedSourceIntegration_def)
  show c: "createProcess \<lparr>fields' = Some mockMappedFields,
       sourceIntegration = Some quotedSourceIntegration,
       targetIntegration = Some mockTargetIntegration\<rparr>
     = Inr (processOf quotedSourceIntegration mockTargetIntegration)"
    by (rule createProcess_processOf)
      (simp_all add: quotedSourceIntegration_def mockTargetIntegration_def)
  show "resolveSource (Some (processOf quotedSourceIntegration mockTargetIntegration))
      = Inr (map (\<lambda>f. (key (sourceField f),
          VString (''the '' @ [dquote] @ key (sourceField f) @ [dquote]))) mockMappedFields)"
    by (rule resolveSource_built [OF c mock_fields_facts(4) r]) simp
  show "resolveTarget (Some (processOf quotedSourceIntegration mockTargetIntegration))
       (dataObject (map (\<lambda>f. (key (sourceField f),
         VString (''the '' @ [dquote] @ key (sourceField f) @ [dquote]))) mockMappedFields))
     = Inl (Error ''Mutation execution failed'')"
    by (rule unparsable_mutation(1) [OF c mock_fields_facts(4) r _ quoted_text_unparsable]) simp
qed

lemma readOnly_parts:
  "resolveSource (Some (processOf mockSourceIntegration readOnlyTargetIntegration))
     = Inr [(''name'', VString ''source_name_value''), (''age'', VString ''source_age_value'')]"
  "createMutationString
      \<lparr>getQueryType = Some (createQuerySchema mockMappedFields
         (resolveQuery mockSourceIntegration)),
       getMutationType = Some (createMutationSchema mockMappedFields
         (resolveMutation readOnlyTargetIntegration))\<rparr>
      mockMappedFields
      (dataObject [(''name'', VString ''source_name_value''), (''age'', VString ''source_age_value'')])
     = Inr (spec_mutationText [spec_fragment ''fullName'' ''source_name_value'',
         spec_fragment ''userAge'' ''source_age_value''])"
  "parse (spec_mutationText [spec_fragment ''fullName'' ''source_name_value'',
         spec_fragment ''userAge'' ''source_age_value''])
     = Some (MUTATION, [(''fullName'', [(''resolvedQuery'', ''source_name_value'')]),
         (''userAge'', [(''resolvedQuery'', ''source_age_value'')])])"
  "collectFields [(''fullName'', [(''resolvedQuery'', ''source_name_value'')]),
         (''userAge'', [(''resolvedQuery'', ''source_age_value'')])]
     = [(''fullName'', [(''resolvedQuery'', ''source_name_value'')]),
         (''userAge'', [(''resolvedQuery'', ''source_age_value'')])]"
  "map_of (getFields (createMutationSchema mockMappedFields
      (resolveMutation readOnlyTargetIntegration))) ''fullName''
     = Some (mutationFieldConfig (resolveMutation readOnlyTargetIntegration)
         (mapped ''name'' ''fullName''))"
  "resolve (mutationFieldConfig (resolveMutation readOnlyTargetIntegration)
       (mapped ''name'' ''fullName''))
     (argumentValues [(''resolvedQuery'', ''source_name_value'')]) = Inl (Error ''read only'')"
proof -
  let ?qv = "\<lambda>f. ''source_'' @ key (sourceField f) @ ''_value''"
  have c: "createProcess \<lparr>fields' = Some mockMappedFields,
       sourceIntegration = Some mockSourceIntegration,
       targetIntegration = Some readOnlyTargetIntegration\<rparr>
     = Inr (processOf mockSourceIntegration readOnlyTargetIntegration)"
    by (rule createProcess_processOf)
      (simp_all add: mock_resolvers readOnlyTargetIntegration_def)
  have "resolveSource (Some (processOf mockSourceIntegration readOnlyTargetIntegration))
      = Inr (map (\<lambda>f. (key (sourceField f), VString (?qv f))) mockMappedFields)"
    by (rule resolveSource_built [OF c mock_fields_facts(4) mock_resolvers(1)]) simp
  then show "resolveSource (Some (processOf mockSourceIntegration readOnlyTargetIntegration))
     = Inr [(''name'', VString ''source_name_value''), (''age'', VString ''source_age_value'')]"
    by (simp add: mockMappedFields_def)
  show "createMutationString
      \<lparr>getQueryType = Some (createQuerySchema mockMappedFields
         (resolveQuery mockSourceIntegration)),
       getMutationType = Some (createMutationSchema mockMappedFields
         (resolveMutation readOnlyTargetIntegration))\<rparr>
      mockMappedFields
      (dataObject [(''name'', VString ''source_name_value''), (''age'', VString ''source_age_value'')])
     = Inr (spec_mutationText [spec_fragment ''fullName'' ''source_name_value'',
         spec_fragment ''userAge'' ''source_age_value''])"
    by (simp add: createMutationString_def mock_mutation_keys mutationFragment_def mock_pairs
        spec_mutationText_def spec_fragment_def propertyText_dataObject)
  show "parse (spec_mutationText [spec_fragment ''fullName'' ''source_name_value'',
         spec_fragment ''userAge'' ''source_age_value''])
     = Some (MUTATION, [(''fullName'', [(''resolvedQuery'', ''source_name_value'')]),
         (''userAge'', [(''resolvedQuery'', ''source_age_value'')])])"
    by code_simp
  show "collectFields [(''fullName'', [(''resolvedQuery'', ''source_name_value'')]),
         (''userAge'', [(''resolvedQuery'', ''source_age_value'')])]
     = [(''fullName'', [(''resolvedQuery'', ''source_name_value'')]),
         (''userAge'', [(''resolvedQuery'', ''source_age_value'')])]"
    by (simp add: collectFields_def)
  show "map_of (getFields (createMutationSchema mockMappedFields
      (resolveMutation readOnlyTargetIntegration))) ''fullName''
     = Some (mutationFieldConfig (resolveMutation readOnlyTargetIntegration)
         (mapped ''name'' ''fullName''))"
    by (simp add: mock_mutation_fields)
      (simp add: mockMappedFields_def mutationFieldConfig_def mapped_def)
  show "resolve (mutationFieldConfig (resolveMutation readOnlyTargetIntegration)
       (mapped ''name'' ''fullName''))
     (argumentValues [(''resolvedQuery'', ''source_name_value'')]) = Inl (Error ''read only'')"
    by (simp add: mutationFieldConfig_def readOnlyTargetIntegration_def)
qed

theorem sync_never_throws_witness:
  "\<not> validateProcess None \<and> resolveSource None = Inl TypeError \<and> sync None = Inr None
   \<and> resolveTarget (Some (processOf quotedSourceIntegration mockTargetIntegration))
       (dataObject (map (\<lambda>f. (key (sourceField f),
         VString (''the '' @ [dquote] @ key (sourceField f) @ [dquote]))) mockMappedFields))
       = Inl (Error ''Mutation execution failed'')
   \<and> sync (Some (processOf quotedSourceIntegration mockTargetIntegration)) = Inr None
   \<and> validateProcess (Some (processOf mockSourceIntegration mockTargetIntegration))
   \<and> sync (Some (processOf mockSourceIntegration mockTargetIntegration))
       = Inr (Some [(''fullName'', VString ''mutated_fullName_source_name_value''),
                    (''userAge'', VString ''mutated_userAge_source_age_value'')])
   \<and> createQueryString \<lparr>getQueryType = None, getMutationType = None\<rparr>
       = Inl (Error ''Schema has no query type defined'')
   \<and> resolveSource (Some noQueryProcess) = Inl (Error ''Schema has no query type defined'')
   \<and> createMutationString mockSchema [mapped ''name'' ''fullName''] (dataObject [])
       = Inl (Error ''Could not find query field for mutation field: userAge'')
   \<and> resolveTarget (Some mismatchedProcess) (dataObject [])
       = Inl (Error ''Could not find query field for mutation field: userAge'')
   \<and> resolve (queryFieldConfig (resolveQuery offlineSourceIntegration) (mapped ''name'' ''fullName''))
         Map.empty = Inl (Error ''offline'')
   \<and> resolveSource (Some (processOf offlineSourceIntegration mockTargetIntegration))
       = Inl (Error ''Query execution failed'')
   \<and> resolveMutation readOnlyTargetIntegration
       = Some (\<lambda>k v. Inl (Error ''read only''))
   \<and> resolve (mutationFieldConfig (resolveMutation readOnlyTargetIntegration)
         (mapped ''name'' ''fullName''))
       (argumentValues [(''resolvedQuery'', ''source_name_value'')]) = Inl (Error ''read only'')
   \<and> sync (Some (processOf mockSourceIntegration readOnlyTargetIntegration)) = Inr None"
proof -
  \<comment> \<open>no process at all\<close>
  have a1: "\<not> validateProcess None"
    by (simp add: validateProcess_def validateChecks_def invariant_def)
  have a2: "resolveSource None = Inl TypeError"
    by (simp add: resolveSource_def)
  from sync_never_throws [where process = None,
      THEN conjunct2, THEN conjunct1] a1
  have a3: "sync None = Inr None" by blast
  \<comment> \<open>a mutation phase that fails\<close>
  from sync_never_throws [where process = "Some (processOf quotedSourceIntegration
      mockTargetIntegration)" and e = "Error ''Mutation execution failed''"
      and qr = "map (\<lambda>f. (key (sourceField f),
         VString (''the '' @ [dquote] @ key (sourceField f) @ [dquote]))) mockMappedFields",
      THEN conjunct2, THEN conjunct2, THEN conjunct2, THEN conjunct1]
    quoted_parts(2,3)
  have b: "sync (Some (processOf quotedSourceIntegration mockTargetIntegration)) = Inr None"
    by blast
  \<comment> \<open>full success\<close>
  have c1: "validateProcess (Some (processOf mockSourceIntegration mockTargetIntegration))"
    using createProcess_Inr [OF mock_createProcess] by blast
  from sync_never_throws [where process = "Some (processOf mockSourceIntegration
      mockTargetIntegration)"
      and qr = "[(''name'', VString ''source_name_value''), (''age'', VString ''source_age_value'')]"
      and r = "Some [(''fullName'', VString ''mutated_fullName_source_name_value''),
                    (''userAge'', VString ''mutated_userAge_source_age_value'')]",
      THEN conjunct2, THEN conjunct2, THEN conjunct2, THEN conjunct2, THEN conjunct1]
    c1 mock_sync_parts
  have c2: "sync (Some (processOf mockSourceIntegration mockTargetIntegration))
       = Inr (Some [(''fullName'', VString ''mutated_fullName_source_name_value''),
                    (''userAge'', VString ''mutated_userAge_source_age_value'')])"
    by blast
  \<comment> \<open>the two text generators failing\<close>
  have d1: "createQueryString \<lparr>getQueryType = None, getMutationType = None\<rparr>
       = Inl (Error ''Schema has no query type defined'')"
    by (simp add: createQueryString_def)
  from sync_never_throws [where p = noQueryProcess
      and sch = "\<lparr>getQueryType = None, getMutationType = None\<rparr>"
      and e = "Error ''Schema has no query type defined''",
      THEN conjunct2, THEN conjunct2, THEN conjunct2, THEN conjunct2, THEN conjunct2, THEN conjunct1] d1
  have d2: "resolveSource (Some noQueryProcess) = Inl (Error ''Schema has no query type defined'')"
    by (simp add: noQueryProcess_def)
  have e1: "createMutationString mockSchema [mapped ''name'' ''fullName''] (dataObject [])
       = Inl (Error ''Could not find query field for mutation field: userAge'')"
    by (simp add: createMutationString_def mock_getMutationType mock_mutation_keys
        mutationFragment_def findQueryFieldName_def mapped_def)
  from sync_never_throws [where p = mismatchedProcess and sch = mockSchema
      and opts = "mockOptions\<lparr>fields' := Some [mapped ''name'' ''fullName'']\<rparr>"
      and fs = "[mapped ''name'' ''fullName'']" and results = "dataObject []"
      and e = "Error ''Could not find query field for mutation field: userAge''",
      THEN conjunct2, THEN conjunct2, THEN conjunct2, THEN conjunct2, THEN conjunct2, THEN conjunct2, THEN conjunct1] e1
  have e2: "resolveTarget (Some mismatchedProcess) (dataObject [])
       = Inl (Error ''Could not find query field for mutation field: userAge'')"
    by (simp add: mismatchedProcess_def)
  \<comment> \<open>a query resolver that rejects\<close>
  have f1: "resolve (queryFieldConfig (resolveQuery offlineSourceIntegration)
      (mapped ''name'' ''fullName'')) Map.empty = Inl (Error ''offline'')"
    by (simp add: queryFieldConfig_def offlineSourceIntegration_def)
  have f0: "map_of (getFields (createQuerySchema mockMappedFields
      (resolveQuery offlineSourceIntegration))) ''name''
      = Some (queryFieldConfig (resolveQuery offlineSourceIntegration)
          (mapped ''name'' ''fullName''))"
    by (simp add: mock_query_fields)
      (simp add: mockMappedFields_def queryFieldConfig_def mapped_def)
  from sync_never_throws [where p = "processOf offlineSourceIntegration mockTargetIntegration"
      and sch = "\<lparr>getQueryType = Some (createQuerySchema mockMappedFields
           (resolveQuery offlineSourceIntegration)),
         getMutationType = Some (createMutationSchema mockMappedFields
           (resolveMutation mockTargetIntegration))\<rparr>"
      and qt = "createQuerySchema mockMappedFields (resolveQuery offlineSourceIntegration)"
      and n = "''name''"
      and cfg = "queryFieldConfig (resolveQuery offlineSourceIntegration)
          (mapped ''name'' ''fullName'')"
      and e = "Error ''offline''",
      THEN conjunct2, THEN conjunct2, THEN conjunct2, THEN conjunct2, THEN conjunct2, THEN conjunct2, THEN conjunct2, THEN conjunct1] f0 f1
  have f2: "resolveSource (Some (processOf offlineSourceIntegration mockTargetIntegration))
       = Inl (Error ''Query execution failed'')"
    by (simp add: processOf_def)
  \<comment> \<open>a mutation resolver that rejects\<close>
  have g1: "resolveMutation readOnlyTargetIntegration = Some (\<lambda>k v. Inl (Error ''read only''))"
    by (simp add: readOnlyTargetIntegration_def)
  have g0: "createProcess \<lparr>fields' = Some mockMappedFields,
       sourceIntegration = Some mockSourceIntegration,
       targetIntegration = Some readOnlyTargetIntegration\<rparr>
     = Inr (processOf mockSourceIntegration readOnlyTargetIntegration)"
    by (rule createProcess_processOf) (simp_all add: mock_resolvers g1)
  have g3: "\<forall>f \<in> set mockMappedFields.
      (\<lambda>k. Inr (VString (''source_'' @ k @ ''_value''))) (key (sourceField f))
        = (Inr (VString (''source_'' @ key (sourceField f) @ ''_value'')) :: error + FieldValue)
      \<and> list_all isPlain (''source_'' @ key (sourceField f) @ ''_value'')"
    using mock_values_plain by blast
  have g4: "mapped ''name'' ''fullName'' \<in> set mockMappedFields"
    by (simp add: mockMappedFields_def mapped_def)
  from sync_never_throws [where gs = mockMappedFields and src = mockSourceIntegration
      and tgt = readOnlyTargetIntegration
      and built = "processOf mockSourceIntegration readOnlyTargetIntegration"
      and rq = "\<lambda>k. Inr (VString (''source_'' @ k @ ''_value''))"
      and rm = "\<lambda>k v. Inl (Error ''read only'')"
      and qv = "\<lambda>f. ''source_'' @ key (sourceField f) @ ''_value''"
      and g = "mapped ''name'' ''fullName''" and e = "Error ''read only''",
      THEN conjunct2, THEN conjunct2, THEN conjunct2, THEN conjunct2, THEN conjunct2, THEN conjunct2, THEN conjunct2, THEN conjunct2, THEN conjunct2]
    g0 mock_fields_facts(4) mock_resolvers(1) g1 g3 g4
  have g2: "sync (Some (processOf mockSourceIntegration readOnlyTargetIntegration)) = Inr None"
    by blast
  \<comment> \<open>the same rejection, at the slot the mutation text selects\<close>
  from sync_never_throws [where p = "processOf mockSourceIntegration readOnlyTargetIntegration"
      and qr = "[(''name'', VString ''source_name_value''), (''age'', VString ''source_age_value'')]"
      and sch = "\<lparr>getQueryType = Some (createQuerySchema mockMappedFields
           (resolveQuery mockSourceIntegration)),
         getMutationType = Some (createMutationSchema mockMappedFields
           (resolveMutation readOnlyTargetIntegration))\<rparr>"
      and opts = "\<lparr>fields' = Some mockMappedFields,
         sourceIntegration = Some mockSourceIntegration,
         targetIntegration = Some readOnlyTargetIntegration\<rparr>"
      and fs = mockMappedFields
      and mutation = "spec_mutationText [spec_fragment ''fullName'' ''source_name_value'',
         spec_fragment ''userAge'' ''source_age_value'']"
      and op = MUTATION
      and sels = "[(''fullName'', [(''resolvedQuery'', ''source_name_value'')]),
         (''userAge'', [(''resolvedQuery'', ''source_age_value'')])]"
      and t = "createMutationSchema mockMappedFields (resolveMutation readOnlyTargetIntegration)"
      and sel = "(''fullName'', [(''resolvedQuery'', ''source_name_value'')])"
      and cfg = "mutationFieldConfig (resolveMutation readOnlyTargetIntegration)
         (mapped ''name'' ''fullName'')"
      and e = "Error ''read only''",
      THEN conjunct2, THEN conjunct2, THEN conjunct2, THEN conjunct2, THEN conjunct2, THEN conjunct2, THEN conjunct2, THEN conjunct2, THEN conjunct1]
    readOnly_parts
  have h2: "sync (Some (processOf mockSourceIntegration readOnlyTargetIntegration)) = Inr None"
    by (simp add: processOf_def rootType_def)
  from a1 a2 a3 quoted_parts(3) b c1 c2 d1 d2 e1 e2 f1 f2 g1 g2 h2 readOnly_parts(6)
  show ?thesis
    by blast
qed

end
